theory Spec2Isabelle
  imports Main
begin

section \<open>Go values shared by both backends\<close>

text \<open>
  Go strings and byte slices are byte sequences; both are modelled as \<open>char list\<close>
  (an Isabelle \<open>char\<close> is one byte).
\<close>

type_synonym bytes = string

text \<open>
  Modelled from the spec: \<open>vcblobstore.ErrBlobNotFound\<close> is declared in the root package,
  which is not among the files at hand; it is the NotFound error of the spec's taxonomy
  and is taken as a sentinel error value, the constructor \<open>ErrBlobNotFound\<close> below.
\<close>

text \<open>
  Go \<open>error\<close> values.  \<open>ErrBlobNotFound\<close> is the sentinel \<open>vcblobstore.ErrBlobNotFound\<close>,
  \<open>ErrNotExist\<close> the sentinel \<open>os.ErrNotExist\<close>, \<open>PathError op path err\<close> the \<open>*fs.PathError\<close>
  that the \<open>os\<close> file functions return, \<open>ExitError\<close> and \<open>ExecError\<close> the failures of
  \<open>os/exec\<close>, \<open>ErrorString\<close> an error without a wrapped cause (\<open>errors.New\<close>, \<open>fmt.Errorf\<close>
  without \<open>%w\<close>), and \<open>Wrapf pre err post\<close> the result of \<open>fmt.Errorf\<close> with one \<open>%w\<close> verb:
  the text before the verb, the wrapped error, and the text after it.
\<close>

datatype goerror =
    ErrBlobNotFound
  | ErrNotExist
  | Errno string
  | PathError string string goerror
  | ExitError nat
  | ExecError string
  | ErrorString string
  | Wrapf string goerror string

text \<open>\<open>fmt.Errorf\<close> with a \<open>%w\<close> verb whose operand may be \<open>nil\<close>: then nothing is wrapped.\<close>

definition Errorf_w :: "string \<Rightarrow> goerror option \<Rightarrow> string \<Rightarrow> goerror" where
  "Errorf_w pre err post =
     (case err of
        Some e \<Rightarrow> Wrapf pre e post
      | None \<Rightarrow> ErrorString (pre @ ''%!w(<nil>)'' @ post))"

text \<open>
  \<open>errors.Is\<close>: follows the chain of wrapped errors; \<open>syscall.Errno\<close> reports
  \<open>ENOENT\<close> as \<open>os.ErrNotExist\<close> through its \<open>Is\<close> method.
\<close>

fun errors_Is :: "goerror \<Rightarrow> goerror \<Rightarrow> bool" where
  "errors_Is (Wrapf pre e post) target = (Wrapf pre e post = target \<or> errors_Is e target)"
| "errors_Is (PathError opn p e) target = (PathError opn p e = target \<or> errors_Is e target)"
| "errors_Is (Errno n) target = (Errno n = target \<or> (n = ''ENOENT'' \<and> target = ErrNotExist))"
| "errors_Is e target = (e = target)"

text \<open>A panic ends the call without a return value.\<close>

datatype 'a outcome = Panic string | Return 'a

subsection \<open>Package \<open>strings\<close>, \<open>strconv\<close>, \<open>os\<close>\<close>

fun strings_HasPrefix :: "string \<Rightarrow> string \<Rightarrow> bool" where
  "strings_HasPrefix s [] = True"
| "strings_HasPrefix [] (p # ps) = False"
| "strings_HasPrefix (c # cs) (p # ps) = (c = p \<and> strings_HasPrefix cs ps)"

fun strings_Contains :: "string \<Rightarrow> string \<Rightarrow> bool" where
  "strings_Contains [] substr = (substr = [])"
| "strings_Contains (c # cs) substr =
     (strings_HasPrefix (c # cs) substr \<or> strings_Contains cs substr)"

definition isDigit :: "char \<Rightarrow> bool" where
  "isDigit c = (c \<in> set ''0123456789'')"

definition digitVal :: "char \<Rightarrow> nat" where
  "digitVal c = of_char c - 48"

fun decimal :: "nat \<Rightarrow> string" where
  "decimal n =
     (if n < 10 then [''0123456789'' ! n]
      else decimal (n div 10) @ [''0123456789'' ! (n mod 10)])"

text \<open>\<open>strconv.Itoa\<close>, the \<open>%d\<close> verb.\<close>

definition Itoa :: "int \<Rightarrow> string" where
  "Itoa i = (if i < 0 then CHR ''-'' # decimal (nat (- i)) else decimal (nat i))"

text \<open>
  \<open>strconv.ParseInt(s, 10, 0)\<close>: an optional sign, then decimal digits only; a value
  outside the 64-bit range is an error.
\<close>

definition strconv_ParseInt :: "string \<Rightarrow> goerror + int" where
  "strconv_ParseInt s =
     (let neg = (s \<noteq> [] \<and> hd s = CHR ''-'');
          ds = (if s \<noteq> [] \<and> (hd s = CHR ''-'' \<or> hd s = CHR ''+'') then tl s else s)
      in if ds = [] \<or> \<not> list_all isDigit ds
         then Inl (ErrorString (''strconv.ParseInt: parsing '' @ s @ '': invalid syntax''))
         else
           let n = foldl (\<lambda>acc c. 10 * acc + int (digitVal c)) 0 ds;
               v = (if neg then - n else n)
           in if v < - (2 ^ 63) \<or> 2 ^ 63 \<le> v
              then Inl (ErrorString (''strconv.ParseInt: parsing '' @ s @ '': value out of range''))
              else Inr v)"

text \<open>The process environment; \<open>os.Getenv\<close> gives the empty string for an unset variable.\<close>

type_synonym environment = "string \<rightharpoonup> string"

definition os_Getenv :: "environment \<Rightarrow> string \<Rightarrow> string" where
  "os_Getenv env name = (case env name of None \<Rightarrow> [] | Some v \<Rightarrow> v)"

definition SimulateGitCommitFailureEnvvarName :: string where
  "SimulateGitCommitFailureEnvvarName = ''GIT_COMMIT_FAIL_INTRUSIVE_TEST''"

definition GitCommitFailureTestCommand :: string where
  "GitCommitFailureTestCommand = ''procyon lotor''"

subsection \<open>\<open>vcblobstore.BlobInfo\<close>\<close>

text \<open>
  Modelled from the spec: the struct \<open>vcblobstore.BlobInfo\<close> is declared in the root
  package, which is not among the files at hand; the spec gives it as
  \<open>{Key: string, Content: bytes, ModifiedBy: string}\<close>, and the test data build it so.
\<close>

record BlobInfo =
  Key :: string
  Content :: bytes
  ModifiedBy :: string

subsection \<open>\<open>encoding/base64\<close>, \<open>encoding/json\<close>, \<open>net/url\<close>\<close>

definition encodeStd :: string where
  "encodeStd = ''ABCDEFGHIJKLMNOPQRSTUVWXYZabcdefghijklmnopqrstuvwxyz0123456789+/''"

definition b64 :: "nat \<Rightarrow> char" where
  "b64 n = encodeStd ! (n mod 64)"

text \<open>\<open>base64.StdEncoding.EncodeToString\<close>: three bytes give four symbols, padded with \<open>=\<close>.\<close>

fun encode_octets :: "nat list \<Rightarrow> string" where
  "encode_octets [] = []"
| "encode_octets [a] = [b64 (a div 4), b64 ((a mod 4) * 16), CHR ''='', CHR ''='']"
| "encode_octets [a, b] =
     [b64 (a div 4), b64 ((a mod 4) * 16 + b div 16), b64 ((b mod 16) * 4), CHR ''='']"
| "encode_octets (a # b # c # rest) =
     [b64 (a div 4), b64 ((a mod 4) * 16 + b div 16), b64 ((b mod 16) * 4 + c div 64),
      b64 (c mod 64)] @ encode_octets rest"

definition base64_EncodeToString :: "bytes \<Rightarrow> string" where
  "base64_EncodeToString src = encode_octets (map of_char src)"

text \<open>
  A JSON document as a tree.  An object keeps its members in the order in which
  \<open>json.Marshal\<close> writes them, the order of the struct's fields.
\<close>

datatype json =
    JNull
  | JString string
  | JNumber int
  | JArray "json list"
  | JObject "(string \<times> json) list"

definition hexdigit :: "nat \<Rightarrow> char" where
  "hexdigit n = ''0123456789ABCDEF'' ! (n mod 16)"

text \<open>
  \<open>url.PathEscape\<close>: every byte is percent-encoded except letters, digits,
  \<open>- _ . ~\<close> and \<open>$ & + : = @\<close>.
\<close>

definition shouldEscape :: "char \<Rightarrow> bool" where
  "shouldEscape c =
     (c \<notin> set ''abcdefghijklmnopqrstuvwxyzABCDEFGHIJKLMNOPQRSTUVWXYZ0123456789-_.~$&+:=@'')"

definition url_PathEscape :: "string \<Rightarrow> string" where
  "url_PathEscape s =
     concat (map (\<lambda>c. if shouldEscape c
                       then [CHR ''%'', hexdigit (of_char c div 16), hexdigit (of_char c mod 16)]
                       else [c]) s)"

section \<open>The remote backend (package \<open>gitlab\<close>)\<close>

record gitlabProject =
  namespacePath :: string
  path :: string
  namespaceId :: int

record Gitlab =
  project :: gitlabProject
  mainBranch :: string
  apikey :: string

definition gitlabProject_String :: "gitlabProject \<Rightarrow> string" where
  "gitlabProject_String g = namespacePath g @ ''/'' @ path g"

type_synonym commitActionType = string

definition commitActionCreate :: commitActionType where "commitActionCreate = ''create''"
definition commitActionDelete :: commitActionType where "commitActionDelete = ''delete''"
definition commitActionMove :: commitActionType where "commitActionMove = ''move''"
definition commitActionUpdate :: commitActionType where "commitActionUpdate = ''update''"
definition commitActionChmod :: commitActionType where "commitActionChmod = ''chmod''"

record commitActionOnByteSlice =
  bs_Action :: commitActionType
  bs_FilePath :: string
  bs_Content :: bytes

text \<open>\<open>Content\<close> and \<open>Encoding\<close> are \<open>*string\<close>: \<open>None\<close> is the nil pointer.\<close>

record commitAction =
  ca_Action :: commitActionType
  ca_FilePath :: string
  ca_Content :: "string option"
  ca_Encoding :: "string option"

record commitProperties =
  Branch :: string
  cp_AuthorName :: string
  CommitMessage :: string
  Actions :: "commitAction list"

record projectProperties =
  NamespaceId :: int
  Path :: string
  Description :: string
  InitializeWithReadme :: string

subsection \<open>\<open>json.Marshal\<close> on strings: coercion to valid UTF-8\<close>

text \<open>
  \<open>utf8.DecodeRuneInString\<close>, as far as the encoder uses it: \<open>runeLen s\<close> is the number of
  bytes of the well-formed UTF-8 sequence at the head of \<open>s\<close>, and 0 where the head is not
  one (the decoder then gives \<open>RuneError\<close> with width 1).  The second byte of a sequence
  is bounded by its first byte (no overlong forms, no surrogates, nothing above U+10FFFF).
\<close>

definition continuation :: "nat \<Rightarrow> nat \<Rightarrow> string \<Rightarrow> nat \<Rightarrow> bool" where
  "continuation lo hi s i = (i < length s \<and> lo \<le> of_char (s ! i) \<and> of_char (s ! i) \<le> hi)"

definition runeLen :: "string \<Rightarrow> nat" where
  "runeLen s =
     (case s of
        [] \<Rightarrow> 0
      | c # cs \<Rightarrow>
          let b = (of_char c :: nat)
          in if b < 0x80 then 1
             else if 0xC2 \<le> b \<and> b \<le> 0xDF
             then (if continuation 0x80 0xBF cs 0 then 2 else 0)
             else if 0xE0 \<le> b \<and> b \<le> 0xEF
             then (if continuation (if b = 0xE0 then 0xA0 else 0x80)
                                   (if b = 0xED then 0x9F else 0xBF) cs 0
                      \<and> continuation 0x80 0xBF cs 1 then 3 else 0)
             else if 0xF0 \<le> b \<and> b \<le> 0xF4
             then (if continuation (if b = 0xF0 then 0x90 else 0x80)
                                   (if b = 0xF4 then 0x8F else 0xBF) cs 0
                      \<and> continuation 0x80 0xBF cs 1 \<and> continuation 0x80 0xBF cs 2
                   then 4 else 0)
             else 0)"

text \<open>U+FFFD, the replacement character, in UTF-8.\<close>

definition replacementChar :: string where
  "replacementChar = [CHR 0xEF, CHR 0xBF, CHR 0xBD]"

text \<open>
  The string that the encoder writes for a Go string: well-formed sequences are kept, and
  every byte that does not begin one is replaced by U+FFFD.  (How the encoder escapes
  characters inside the quotes does not change the string that the document holds.)
\<close>

fun toValidUTF8 :: "string \<Rightarrow> string" where
  "toValidUTF8 [] = []"
| "toValidUTF8 (c # cs) =
     (if runeLen (c # cs) = 0 then replacementChar @ toValidUTF8 cs
      else c # take (runeLen (c # cs) - 1) cs @ toValidUTF8 (drop (runeLen (c # cs) - 1) cs))"

text \<open>\<open>utf8.ValidString\<close>.\<close>

fun utf8_ValidString :: "string \<Rightarrow> bool" where
  "utf8_ValidString [] = True"
| "utf8_ValidString (c # cs) =
     (runeLen (c # cs) \<noteq> 0 \<and> utf8_ValidString (drop (runeLen (c # cs) - 1) cs))"

definition marshal_string :: "string \<Rightarrow> json" where
  "marshal_string s = JString (toValidUTF8 s)"

text \<open>
  \<open>json.Marshal\<close> on the request structs.  Every field carries a plain \<open>json:"name"\<close> tag
  (none has \<open>omitempty\<close>), so every field is written; a nil pointer is written as
  \<open>null\<close>.  Marshalling strings and integers cannot fail.
\<close>

definition marshal_string_ptr :: "string option \<Rightarrow> json" where
  "marshal_string_ptr p = (case p of None \<Rightarrow> JNull | Some s \<Rightarrow> marshal_string s)"

definition marshal_commitAction :: "commitAction \<Rightarrow> json" where
  "marshal_commitAction a =
     JObject [(''action'', marshal_string (ca_Action a)),
              (''file_path'', marshal_string (ca_FilePath a)),
              (''content'', marshal_string_ptr (ca_Content a)),
              (''encoding'', marshal_string_ptr (ca_Encoding a))]"

definition marshal_commitProperties :: "commitProperties \<Rightarrow> json" where
  "marshal_commitProperties p =
     JObject [(''branch'', marshal_string (Branch p)),
              (''author_name'', marshal_string (cp_AuthorName p)),
              (''commit_message'', marshal_string (CommitMessage p)),
              (''actions'', JArray (map marshal_commitAction (Actions p)))]"

definition marshal_projectProperties :: "projectProperties \<Rightarrow> json" where
  "marshal_projectProperties p =
     JObject [(''namespace_id'', JNumber (NamespaceId p)),
              (''path'', marshal_string (Path p)),
              (''description'', marshal_string (Description p)),
              (''initialize_with_readme'', marshal_string (InitializeWithReadme p))]"

subsection \<open>\<open>createCommitBody\<close>\<close>

text \<open>
  One pass of the loop of \<open>createCommitBody\<close>: the slot comes zeroed from \<open>make\<close>, so
  \<open>Encoding\<close> stays nil unless the content is longer than one byte.
\<close>

definition toCommitAction :: "commitActionOnByteSlice \<Rightarrow> commitAction" where
  "toCommitAction actionIn =
     (let slot = \<lparr>ca_Action = [], ca_FilePath = [], ca_Content = None, ca_Encoding = None\<rparr>;
          slot = slot\<lparr>ca_Content := None\<rparr>;
          slot = (if length (bs_Content actionIn) > 1
                  then slot\<lparr>ca_Content := Some (base64_EncodeToString (bs_Content actionIn)),
                            ca_Encoding := Some ''base64''\<rparr>
                  else slot);
          slot = slot\<lparr>ca_Action := bs_Action actionIn\<rparr>
      in slot\<lparr>ca_FilePath := bs_FilePath actionIn\<rparr>)"

definition commitActions :: "commitActionOnByteSlice list \<Rightarrow> commitAction list" where
  "commitActions actionsIn = map toCommitAction actionsIn"

definition createCommitBody ::
  "Gitlab \<Rightarrow> string \<Rightarrow> string \<Rightarrow> commitActionOnByteSlice list \<Rightarrow> goerror + json" where
  "createCommitBody g authorName commitMessage actionsIn =
     (let commActs = commitActions actionsIn;
          commitProps = \<lparr>Branch = mainBranch g, cp_AuthorName = authorName,
                         CommitMessage = commitMessage, Actions = commActs\<rparr>
      in Inr (marshal_commitProperties commitProps))"

subsection \<open>\<open>CheckStatus\<close>\<close>

definition Gitlab_CheckStatus :: "Gitlab \<Rightarrow> bool \<times> goerror option" where
  "Gitlab_CheckStatus g = (True, None)"

subsection \<open>The hosted service and \<open>sendRequest\<close>\<close>

text \<open>
  The hosted service is the environment.  \<open>http_outcome\<close> is what one call through
  \<open>net/http\<close> can come to: the request cannot be built, the round trip fails, or a response
  arrives with a status code, headers and a body that can be read or not.  A
  \<open>service\<close> answers a request (method, path, body) from its state.
\<close>

type_synonym http_header = "string \<rightharpoonup> string"

datatype http_outcome =
    RequestCreationError goerror
  | RequestExecutionError goerror
  | Responded int http_header "goerror + string"

type_synonym 's service = "string \<Rightarrow> string \<Rightarrow> json option \<Rightarrow> 's \<Rightarrow> http_outcome \<times> 's"

text \<open>
  What the backend does to the outside, in order: a \<open>Request\<close> for each request it hands
  to \<open>sendRequest\<close> (method, path, body), a \<open>Sleep\<close> for each pause, in milliseconds.
\<close>

datatype event =
    Request string string "json option"
  | Sleep nat

record 's net =
  hosted :: 's
  events :: "event list"
  environ :: environment

definition Header_Get :: "http_header \<Rightarrow> string \<Rightarrow> string" where
  "Header_Get h k = (case h k of None \<Rightarrow> [] | Some v \<Rightarrow> v)"

definition time_Sleep :: "nat \<Rightarrow> 's net \<Rightarrow> 's net" where
  "time_Sleep ms w = w\<lparr>events := events w @ [Sleep ms]\<rparr>"

text \<open>
  \<open>sendRequest\<close>.  The client pool holds only \<open>http.Client\<close> values, so taking one and
  putting it back leaves no trace in a sequential run; the result is
  (status code, headers, body, error).
\<close>

definition sendRequest ::
  "'s service \<Rightarrow> Gitlab \<Rightarrow> string \<Rightarrow> string \<Rightarrow> json option \<Rightarrow> 's net
     \<Rightarrow> (int \<times> http_header option \<times> string \<times> goerror option) \<times> 's net" where
  "sendRequest svc g method apiCallPath body w =
     (let (resp, s') = svc method apiCallPath body (hosted w);
          w' = w\<lparr>hosted := s', events := events w @ [Request method apiCallPath body]\<rparr>
      in case resp of
           RequestCreationError e \<Rightarrow>
             ((0, None, [], Some (Wrapf ''failed to create request: '' e [])), w')
         | RequestExecutionError e \<Rightarrow>
             ((0, None, [], Some (Wrapf ''failed to execute request: '' e [])), w')
         | Responded status hdr content \<Rightarrow>
             (case content of
                Inl errBody \<Rightarrow>
                  ((status, None, [], Some (Wrapf ''failed to read body: '' errBody [])), w')
              | Inr respBody \<Rightarrow>
                  let rateLimitRemainingHeader = Header_Get hdr ''RateLimit-Remaining''
                  in if length rateLimitRemainingHeader > 0
                     then (case strconv_ParseInt (Header_Get hdr ''RateLimit-Remaining'') of
                             Inl rateLimitParseErr \<Rightarrow>
                               ((status, None, [],
                                 Some (Wrapf ''failed to parse RateLimit-Remaining header: ''
                                         rateLimitParseErr [])), w')
                           | Inr rateLimitRemainning \<Rightarrow> ((status, Some hdr, respBody, None), w'))
                     else ((status, Some hdr, respBody, None), w')))"

subsection \<open>\<open>commit\<close>, \<open>AddBlob\<close>, \<open>DeleteBlob\<close>\<close>

definition commitsPath :: "Gitlab \<Rightarrow> string" where
  "commitsPath g =
     ''/projects/'' @ url_PathEscape (gitlabProject_String (project g)) @
     ''/repository/commits?'' @ url_PathEscape (''ref='' @ mainBranch g)"

definition Gitlab_commit ::
  "'s service \<Rightarrow> Gitlab \<Rightarrow> string \<Rightarrow> string \<Rightarrow> commitActionOnByteSlice list \<Rightarrow> 's net
     \<Rightarrow> goerror option \<times> 's net" where
  "Gitlab_commit svc g authorName commitMessage actions w =
     (if os_Getenv (environ w) SimulateGitCommitFailureEnvvarName = ''true''
      then (Some (ErrorString ''simulate git commit failure''), w)
      else
        case createCommitBody g authorName commitMessage actions of
          Inl createCommitBodyErr \<Rightarrow>
            (Some (Wrapf ''failed to create commit request body: '' createCommitBodyErr []), w)
        | Inr commitBody \<Rightarrow>
            (case sendRequest svc g ''POST'' (commitsPath g) (Some commitBody) w of
               ((statusCode, hdr, body, err), w') \<Rightarrow>
                 if err \<noteq> None \<or> statusCode \<noteq> 201
                 then (Some (Errorf_w (''failed to commit to GitLab repo: ('' @ Itoa statusCode @
                                        '') '' @ body @ '' -- '') err []), w')
                 else (None, w')))"

definition Gitlab_AddBlob ::
  "'s service \<Rightarrow> Gitlab \<Rightarrow> BlobInfo \<Rightarrow> 's net \<Rightarrow> goerror option \<times> 's net" where
  "Gitlab_AddBlob svc g blob w =
     (let modifiedBy = ModifiedBy blob
      in case Gitlab_commit svc g modifiedBy (''Adding Blob: '' @ Key blob)
                [\<lparr>bs_Action = commitActionCreate, bs_FilePath = Key blob,
                  bs_Content = Content blob\<rparr>] w of
           (Some commitErr, w') \<Rightarrow>
             (Some (Wrapf (''failed to add Blob to GitLab repo '' @ Key blob @ '': '') commitErr []),
              w')
         | (None, w') \<Rightarrow> (None, w'))"

definition Gitlab_DeleteBlob ::
  "'s service \<Rightarrow> Gitlab \<Rightarrow> string \<Rightarrow> string \<Rightarrow> 's net \<Rightarrow> goerror option \<times> 's net" where
  "Gitlab_DeleteBlob svc g k modifiedBy w =
     (case Gitlab_commit svc g modifiedBy (''Deleting blob: '' @ k)
             [\<lparr>bs_Action = commitActionDelete, bs_FilePath = k, bs_Content = []\<rparr>] w of
        (Some commitErr, w') \<Rightarrow>
          (Some (Wrapf (''failed to delete blob from GitLab repo '' @ k @ '': '') commitErr []), w')
      | (None, w') \<Rightarrow> (None, w'))"

subsection \<open>\<open>CreateRepository\<close> and \<open>DeleteRepository\<close>\<close>

definition gitlabRepoHasAlreadyBeenTaken :: string where
  "gitlabRepoHasAlreadyBeenTaken = ''has already been taken''"

definition transientGitlabRepoCreationErrMessages :: "string list" where
  "transientGitlabRepoCreationErrMessages =
     [''The project is still being deleted. Please try again later.'',
      gitlabRepoHasAlreadyBeenTaken]"

definition isTransientGitlabRepoCreationErrMessage :: "string \<Rightarrow> bool" where
  "isTransientGitlabRepoCreationErrMessage message =
     list_ex (\<lambda>fragment. strings_Contains message fragment) transientGitlabRepoCreationErrMessages"

definition createCreateProjectBody :: "Gitlab \<Rightarrow> goerror + json" where
  "createCreateProjectBody g =
     (let projectProps = \<lparr>NamespaceId = namespaceId (project g), Path = path (project g),
                          Description = [], InitializeWithReadme = []\<rparr>
      in Inr (marshal_projectProperties projectProps))"

definition Gitlab_DeleteRepository ::
  "'s service \<Rightarrow> Gitlab \<Rightarrow> 's net \<Rightarrow> goerror option \<times> 's net" where
  "Gitlab_DeleteRepository svc g w =
     (case sendRequest svc g ''DELETE''
             (''/projects/'' @ url_PathEscape (gitlabProject_String (project g))) None w of
        ((statusCode, hdr, body, err), w') \<Rightarrow>
          if err \<noteq> None \<or> (statusCode \<noteq> 202 \<and> statusCode \<noteq> 404)
          then (Some (Errorf_w (''failed to delete gitlab repository: ('' @ Itoa statusCode @
                                 '') '' @ body @ '' -- '') err []), w')
          else (None, w'))"

definition sleepBeforeRetryMs :: nat where
  "sleepBeforeRetryMs = 1000"

definition maxRetryCount :: nat where
  "maxRetryCount = 20"

text \<open>
  The loop of \<open>CreateRepository\<close>, entered with the current \<open>retryCount\<close>.  Reading the
  request body back (\<open>io.ReadAll\<close> on a \<open>bytes.Reader\<close>) cannot fail.
\<close>

function CreateRepository_loop ::
  "'s service \<Rightarrow> Gitlab \<Rightarrow> nat \<Rightarrow> 's net \<Rightarrow> goerror option outcome \<times> 's net" where
  "CreateRepository_loop svc g retryCount w =
     (case createCreateProjectBody g of
        Inl requestBodyErr \<Rightarrow>
          (Return (Some (Wrapf ''failed to create request body for creating test repository: ''
                           requestBodyErr [])), w)
      | Inr requestBody \<Rightarrow>
          (case sendRequest svc g ''POST'' ''/projects'' (Some requestBody) w of
             ((statusCode, hdr, responseBody, err), w1) \<Rightarrow>
               if err \<noteq> None \<or> (statusCode \<noteq> 201 \<and> statusCode \<noteq> 400)
               then (Return (Some (Errorf_w (''failed to create project: ('' @ Itoa statusCode @
                                              '') '' @ responseBody @ '' -- '') err [])), w1)
               else if statusCode = 400 \<and> isTransientGitlabRepoCreationErrMessage responseBody
               then
                 (if Suc retryCount \<ge> maxRetryCount
                  then (Panic ''Too many retries creating GitLab repo'', w1)
                  else
                    let w2 = time_Sleep sleepBeforeRetryMs w1;
                        w3 = (if strings_Contains responseBody gitlabRepoHasAlreadyBeenTaken
                              then time_Sleep sleepBeforeRetryMs
                                     (snd (Gitlab_DeleteRepository svc g w2))
                              else w2)
                    in CreateRepository_loop svc g (Suc retryCount) w3)
               else (Return None, w1)))"
  by pat_completeness auto
termination
  by (relation "measure (\<lambda>(svc, g, retryCount, w). maxRetryCount - retryCount)")
     (auto simp: maxRetryCount_def)

definition Gitlab_CreateRepository ::
  "'s service \<Rightarrow> Gitlab \<Rightarrow> 's net \<Rightarrow> goerror option outcome \<times> 's net" where
  "Gitlab_CreateRepository svc g w = CreateRepository_loop svc g 0 w"

subsection \<open>Reading a request body back\<close>

definition json_field :: "json \<Rightarrow> string \<Rightarrow> json option" where
  "json_field j k = (case j of JObject ms \<Rightarrow> map_of ms k | _ \<Rightarrow> None)"

definition request_actions :: "goerror + json \<Rightarrow> json list" where
  "request_actions r =
     (case r of
        Inr body \<Rightarrow> (case json_field body ''actions'' of Some (JArray acts) \<Rightarrow> acts | _ \<Rightarrow> [])
      | Inl e \<Rightarrow> [])"

subsection \<open>A scripted service\<close>

text \<open>
  A service that answers from a fixed list of replies, oldest first, and refuses the
  connection once the list is used up; it stands for one concrete exchange with the host.
\<close>

definition replay :: "http_outcome list service" where
  "replay method apiCallPath body pending =
     (case pending of
        [] \<Rightarrow> (RequestExecutionError (ErrorString ''connection refused''), [])
      | r # rs \<Rightarrow> (r, rs))"

definition testGitlab :: Gitlab where
  "testGitlab = \<lparr>project = \<lparr>namespacePath = ''testing-with-repositories'',
                              path = ''testing-with-repositories'', namespaceId = 7\<rparr>,
                  mainBranch = ''main'', apikey = ''token''\<rparr>"

text \<open>A host on which the project stays in deletion: every request gets that answer.\<close>

definition busy :: "unit service" where
  "busy verb apiCallPath body s =
     (Responded 400 Map.empty
        (Inr ''{message: The project is still being deleted. Please try again later.}''), s)"

section \<open>The local backend (package \<open>local\<close>)\<close>

subsection \<open>The machine: files, the environment, the \<open>git\<close> executable\<close>

record CmdOpts =
  Cwd :: string

record ExecCmdParams =
  Name :: string
  Args :: "string list"
  Opts :: "CmdOpts option"

text \<open>
  What running a command can come to: it cannot be started (the pipes or \<open>cmd.Start\<close>
  fail), or it exits with a status, having written to standard output and standard error.
\<close>

datatype proc_outcome =
    StartError string
  | Exited nat string string

text \<open>
  The state of the machine.  \<open>files\<close> maps the path of each regular file to its content;
  directories are not recorded.  \<open>store\<close> is whatever else the executable keeps (for
  \<open>git\<close>: the index and the history), \<open>invoked\<close> lists the commands run so far, oldest
  first, and \<open>procenv\<close> is the process environment.  An \<open>executable\<close> is the behaviour
  of the external programs: from the command and the machine to an outcome and the
  changed files and store.
\<close>

record 'g world =
  files :: "string \<rightharpoonup> bytes"
  store :: 'g
  invoked :: "ExecCmdParams list"
  procenv :: environment

type_synonym 'g executable =
  "ExecCmdParams \<Rightarrow> (string \<rightharpoonup> bytes) \<times> 'g \<Rightarrow> proc_outcome \<times> (string \<rightharpoonup> bytes) \<times> 'g"

definition ExecuteCommand ::
  "'g executable \<Rightarrow> ExecCmdParams \<Rightarrow> 'g world \<Rightarrow> (string \<times> goerror option) \<times> 'g world" where
  "ExecuteCommand exe params w =
     (case exe params (files w, store w) of
        (res, fs', g') \<Rightarrow>
          let w' = w\<lparr>files := fs', store := g', invoked := invoked w @ [params]\<rparr>
          in (case res of
                StartError msg \<Rightarrow> (([], Some (ExecError msg)), w')
              | Exited status slurpOut slurpErr \<Rightarrow>
                  if status \<noteq> 0
                  then (let errMsg = (if length slurpErr = 0 then slurpOut else slurpErr)
                        in ((errMsg, Some (ExitError status)), w'))
                  else ((slurpOut, None), w')))"

text \<open>
  The \<open>os\<close> file functions on this machine.  A missing file gives the \<open>*PathError\<close> with
  \<open>ENOENT\<close> that the package documents; creating the store directory fails only where a
  regular file has its path; a write cannot fail.
\<close>

definition os_Remove :: "string \<Rightarrow> 'g world \<Rightarrow> goerror option \<times> 'g world" where
  "os_Remove name w =
     (case files w name of
        None \<Rightarrow> (Some (PathError ''remove'' name (Errno ''ENOENT'')), w)
      | Some c \<Rightarrow> (None, w\<lparr>files := (files w)(name := None)\<rparr>))"

definition os_ReadFile :: "string \<Rightarrow> 'g world \<Rightarrow> goerror + bytes" where
  "os_ReadFile name w =
     (case files w name of
        None \<Rightarrow> Inl (PathError ''open'' name (Errno ''ENOENT''))
      | Some c \<Rightarrow> Inr c)"

definition os_WriteFile :: "string \<Rightarrow> bytes \<Rightarrow> 'g world \<Rightarrow> goerror option \<times> 'g world" where
  "os_WriteFile name content w = (None, w\<lparr>files := (files w)(name \<mapsto> content)\<rparr>)"

definition os_MkdirAll :: "string \<Rightarrow> 'g world \<Rightarrow> goerror option \<times> 'g world" where
  "os_MkdirAll dir w =
     (if files w dir \<noteq> None then (Some (PathError ''mkdir'' dir (Errno ''ENOTDIR'')), w)
      else (None, w))"

text \<open>
  \<open>filepath.Join\<close> and \<open>filepath.Dir\<close> on paths that are already clean.  The package
  passes its result through \<open>filepath.Clean\<close>, which is left out here: the two functions
  are those of the package on arguments with no element \<open>.\<close> or \<open>..\<close>, no doubled
  separator and no separator at the end.  The keys \<open>.\<close> and \<open>..\<close>, which \<open>Clean\<close> would
  resolve against the location, are outside what this section models.
\<close>

definition filepath_Join :: "string \<Rightarrow> string \<Rightarrow> string" where
  "filepath_Join a b = (if a = [] then b else if b = [] then a else a @ ''/'' @ b)"

definition filepath_Dir :: "string \<Rightarrow> string" where
  "filepath_Dir p =
     (let d = rev (drop 1 (dropWhile (\<lambda>c. c \<noteq> CHR ''/'') (rev p)))
      in if d \<noteq> [] then d else if strings_HasPrefix p ''/'' then ''/'' else ''.'')"

definition isSpace :: "char \<Rightarrow> bool" where
  "isSpace c = (c \<in> set [CHR 0x09, CHR 0x0A, CHR 0x0B, CHR 0x0C, CHR 0x0D, CHR '' ''])"

text \<open>\<open>strings.TrimSpace\<close> on ASCII white space.\<close>

definition strings_TrimSpace :: "string \<Rightarrow> string" where
  "strings_TrimSpace s = rev (dropWhile isSpace (rev (dropWhile isSpace s)))"

subsection \<open>The repository handle and its \<open>git\<close> commands\<close>

record Git =
  location :: string

definition ExecuteGitCommand ::
  "'g executable \<Rightarrow> Git \<Rightarrow> string list \<Rightarrow> 'g world \<Rightarrow> (string \<times> goerror option) \<times> 'g world" where
  "ExecuteGitCommand exe repo args w =
     ExecuteCommand exe \<lparr>Name = ''git'', Args = args, Opts = Some \<lparr>Cwd = location repo\<rparr>\<rparr> w"

record gitJobMessages =
  logContext :: string
  commitMessage :: string

definition getCommitCommand :: "environment \<Rightarrow> string" where
  "getCommitCommand env =
     (if os_Getenv env SimulateGitCommitFailureEnvvarName = ''true''
      then GitCommitFailureTestCommand
      else ''commit'')"

definition commit :: "environment \<Rightarrow> string \<Rightarrow> string \<Rightarrow> string list" where
  "commit env messageBase userName =
     [getCommitCommand env,
      ''-m'', messageBase @ '' by '' @ userName,
      ''--author='' @ userName @ '' <'' @ userName @ ''>'']"

definition rollbackCommands :: "string list list" where
  "rollbackCommands = [[''reset'', ''--hard'', ''HEAD''], [''clean'', ''-qfdx'']]"

definition rollback :: "'g executable \<Rightarrow> Git \<Rightarrow> 'g world \<Rightarrow> 'g world" where
  "rollback exe repo w =
     foldl (\<lambda>w rollbackCmd. snd (ExecuteGitCommand exe repo rollbackCmd w)) w rollbackCommands"

text \<open>
  \<open>executeBlobManipulationJob\<close>.  \<open>deferred\<close> is the deferred function: it reads the
  variable \<open>err\<close> as it stands when the function returns.  The first test compares
  \<open>err\<close> with itself, as the source does.
\<close>

definition executeBlobManipulationJob ::
  "'g executable \<Rightarrow> Git \<Rightarrow> ('g world \<Rightarrow> goerror option \<times> 'g world) \<Rightarrow> gitJobMessages \<Rightarrow> string
     \<Rightarrow> 'g world \<Rightarrow> goerror option \<times> 'g world" where
  "executeBlobManipulationJob exe repo blobOperation messages userName w =
     (let deferred = (\<lambda>err w'. if err \<noteq> None then rollback exe repo w' else w')
      in case blobOperation w of
           (err, w1) \<Rightarrow>
             if err \<noteq> err
             then (Some (Errorf_w ''failed blob operation: '' err []), deferred err w1)
             else
               (case ExecuteGitCommand exe repo [''add'', ''-A''] w1 of
                  ((out, err), w2) \<Rightarrow>
                    if err \<noteq> None
                    then (Some (Errorf_w ''failed to add files to index: '' err ('' -> '' @ out)),
                          deferred err w2)
                    else
                      (case ExecuteGitCommand exe repo
                              (commit (procenv w2) (commitMessage messages) userName) w2 of
                         ((out, err), w3) \<Rightarrow>
                           if err \<noteq> None
                           then (Some (Errorf_w ''failed to commit: '' err ('' -> '' @ out)),
                                 deferred err w3)
                           else (err, deferred err w3))))"

text \<open>
  \<open>Enqueue\<close> hands the job to the single worker and waits until it has run; for one
  caller at a time that is running the job.
\<close>

definition Enqueue :: "('w \<Rightarrow> 'r \<times> 'w) \<Rightarrow> 'w \<Rightarrow> 'r \<times> 'w" where
  "Enqueue job w = job w"

subsection \<open>Blob operations\<close>

definition pathToFile :: "Git \<Rightarrow> string \<Rightarrow> goerror + string" where
  "pathToFile repo k =
     (if strings_Contains k ''/''
      then Inl (ErrorString ''invalid character in key: forward slash ('/')'')
      else Inr (filepath_Join (location repo) k))"

definition keyValidationError :: goerror where
  "keyValidationError = ErrorString ''invalid character in key: forward slash ('/')''"

definition annotate :: "string \<Rightarrow> goerror option \<Rightarrow> goerror option" where
  "annotate operationMsg err =
     (case err of Some e \<Rightarrow> Some (Wrapf (operationMsg @ '': '') e []) | None \<Rightarrow> None)"

definition createBlob :: "Git \<Rightarrow> string \<Rightarrow> bytes \<Rightarrow> 'g world \<Rightarrow> goerror option \<times> 'g world" where
  "createBlob repo k content w =
     (case pathToFile repo k of
        Inl pathErr \<Rightarrow> (Some pathErr, w)
      | Inr p \<Rightarrow>
          let directory = filepath_Dir p
          in (case os_MkdirAll directory w of
                (Some e1, w1) \<Rightarrow> (annotate (''create directory '' @ directory) (Some e1), w1)
              | (None, w1) \<Rightarrow>
                  (case os_MkdirAll directory w1 of
                     (Some e2, w2) \<Rightarrow> (annotate (''create directory '' @ directory) (Some e2), w2)
                   | (None, w2) \<Rightarrow>
                       (case os_WriteFile p content w2 of
                          (err, w3) \<Rightarrow> (annotate (''write file '' @ directory) err, w3)))))"

definition Git_AddBlob ::
  "'g executable \<Rightarrow> Git \<Rightarrow> BlobInfo \<Rightarrow> 'g world \<Rightarrow> goerror option \<times> 'g world" where
  "Git_AddBlob exe repo blob w =
     (let k = Key blob; content = Content blob
      in case pathToFile repo k of
           Inl pathErr \<Rightarrow> (Some pathErr, w)
         | Inr p \<Rightarrow>
             let blobOperation =
                   (\<lambda>w. case createBlob repo k content w of
                          (Some err, w') \<Rightarrow>
                            (Some (Wrapf (''failed to create blobfile '' @ k @ '' as '' @ p @ '': '')
                                     err []), w')
                        | (None, w') \<Rightarrow> (None, w'));
                 jobTextProvider = \<lparr>logContext = ''add blob file'',
                                     commitMessage = ''blob file version added''\<rparr>
             in (case Enqueue (executeBlobManipulationJob exe repo blobOperation jobTextProvider
                                 (ModifiedBy blob)) w of
                   (Some err, w') \<Rightarrow>
                     (Some (Wrapf (''failed to add blobfile '' @ p @ '' to git repository at '' @
                                   location repo @ '': '') err []), w')
                 | (None, w') \<Rightarrow> (None, w')))"

text \<open>
  \<open>copyBlobContents\<close>: open the source, create (and so truncate) the destination, copy,
  flush.  The copy reads the source as it is after the destination was created.  On this
  machine, which records no directories, opening fails only for a missing source, and
  \<open>os.Create\<close>, \<open>io.Copy\<close>, \<open>Sync\<close> and \<open>Close\<close> do not fail: the branches of the source
  that return their errors are not reached.
\<close>

definition copyBlobContents :: "string \<Rightarrow> string \<Rightarrow> 'g world \<Rightarrow> goerror option \<times> 'g world" where
  "copyBlobContents src dst w =
     (case files w src of
        None \<Rightarrow> (Some (PathError ''open'' src (Errno ''ENOENT'')), w)
      | Some c \<Rightarrow>
          let w1 = w\<lparr>files := (files w)(dst \<mapsto> [])\<rparr>;
              w2 = w1\<lparr>files := (files w1)(dst \<mapsto> (case files w1 src of None \<Rightarrow> [] | Some d \<Rightarrow> d))\<rparr>
          in (None, w2))"

definition Git_CopyBlob ::
  "'g executable \<Rightarrow> Git \<Rightarrow> string \<Rightarrow> string \<Rightarrow> string \<Rightarrow> 'g world \<Rightarrow> goerror option \<times> 'g world" where
  "Git_CopyBlob exe repo sourceKey destinationKey modifiedBy w =
     (let jobTextProvider = \<lparr>logContext = ''copy blob file'',
                              commitMessage = ''blob file version added''\<rparr>
      in case pathToFile repo sourceKey of
           Inl srcPathErr \<Rightarrow> (Some srcPathErr, w)
         | Inr sourcePath \<Rightarrow>
             (case pathToFile repo destinationKey of
                Inl destPathErr \<Rightarrow> (Some destPathErr, w)
              | Inr destinationPath \<Rightarrow>
                  let blobOperation =
                        (\<lambda>w. case copyBlobContents sourcePath destinationPath w of
                               (Some err, w') \<Rightarrow>
                                 (Some (Wrapf (''failed to copy file contents from '' @ sourceKey @
                                               '' to '' @ destinationKey @ '': '') err []), w')
                             | (None, w') \<Rightarrow> (None, w'))
                  in (case Enqueue (executeBlobManipulationJob exe repo blobOperation
                                      jobTextProvider modifiedBy) w of
                        (Some err, w') \<Rightarrow>
                          (Some (Wrapf (''failed to copy blobfile from '' @ sourceKey @ '' to '' @
                                        destinationKey @ '' to git repository at '' @
                                        location repo @ '': '') err []), w')
                      | (None, w') \<Rightarrow> (None, w'))))"

definition Git_GetBlob :: "Git \<Rightarrow> string \<Rightarrow> 'g world \<Rightarrow> (goerror + bytes) \<times> 'g world" where
  "Git_GetBlob repo k w =
     (case pathToFile repo k of
        Inl pathErr \<Rightarrow> (Inl pathErr, w)
      | Inr p \<Rightarrow>
          (case os_ReadFile p w of
             Inl err \<Rightarrow>
               (Inl (Wrapf (''failed to read file '' @ p @ '' from local git repo: '') err []), w)
           | Inr content \<Rightarrow> (Inr content, w)))"

text \<open>
  \<open>deleteBlob\<close>.  The error of \<open>os.Remove\<close> is compared with the sentinel
  \<open>os.ErrNotExist\<close> by \<open>==\<close>, as the source does.
\<close>

definition deleteBlob :: "Git \<Rightarrow> string \<Rightarrow> 'g world \<Rightarrow> goerror option \<times> 'g world" where
  "deleteBlob repo k w =
     (case pathToFile repo k of
        Inl pathErr \<Rightarrow> (Some pathErr, w)
      | Inr p \<Rightarrow>
          (case os_Remove p w of
             (Some removeFileErr, w') \<Rightarrow>
               if removeFileErr = ErrNotExist
               then (Some (Wrapf (''failed to remove blob '' @ k @ '': '') ErrBlobNotFound []), w')
               else (Some (Wrapf (''failed to remove blob '' @ k @ '': '') removeFileErr []), w')
           | (None, w') \<Rightarrow> (None, w')))"

definition Git_DeleteBlob ::
  "'g executable \<Rightarrow> Git \<Rightarrow> string \<Rightarrow> string \<Rightarrow> 'g world \<Rightarrow> goerror option \<times> 'g world" where
  "Git_DeleteBlob exe repo k modifiedBy w =
     (let blobOperation = (\<lambda>w. deleteBlob repo k w);
          jobTextProvider = \<lparr>logContext = ''delete blob '' @ k, commitMessage = ''blob deleted''\<rparr>
      in case Enqueue (executeBlobManipulationJob exe repo blobOperation jobTextProvider
                         modifiedBy) w of
           (Some err, w') \<Rightarrow>
             (Some (Wrapf (''failed to remove blob '' @ k @ '' from git repository: '') err []), w')
         | (None, w') \<Rightarrow> (None, w'))"

definition cleanStatusMessageTail :: string where
  "cleanStatusMessageTail = ''nothing to commit, working tree clean''"

definition Git_CheckStatus ::
  "'g executable \<Rightarrow> Git \<Rightarrow> 'g world \<Rightarrow> (bool \<times> goerror option) \<times> 'g world" where
  "Git_CheckStatus exe repo w =
     (case ExecuteGitCommand exe repo [''status''] w of
        ((out, Some err), w') \<Rightarrow>
          ((False, Some (Wrapf ''failed to get current git commit: '' err [])), w')
      | ((out, None), w') \<Rightarrow>
          ((strings_Contains (strings_TrimSpace out) cleanStatusMessageTail, None), w'))"

definition Git_GetVersionFor ::
  "'g executable \<Rightarrow> Git \<Rightarrow> string \<Rightarrow> 'g world \<Rightarrow> (string \<times> goerror option) \<times> 'g world" where
  "Git_GetVersionFor exe repo k w =
     (case pathToFile repo k of
        Inl pathErr \<Rightarrow> (([], Some pathErr), w)
      | Inr p \<Rightarrow>
          (case ExecuteGitCommand exe repo
                  [''log'', ''-n'', ''1'', ''--pretty=format:%H'', ''--'', p] w of
             ((output, Some execErr), w') \<Rightarrow>
               (([], Some (Wrapf (''failed to execute command to get last commit modifying '' @ k @
                                  '': '') execErr [])), w')
           | ((output, None), w') \<Rightarrow> ((output, None), w')))"

subsection \<open>A scripted executable\<close>

text \<open>
  An executable that answers from a fixed list of outcomes, oldest first, and leaves the
  files alone; once the list is used up the command cannot be started.  It stands for one
  concrete run of \<open>git\<close>.
\<close>

definition scripted :: "proc_outcome list executable" where
  "scripted params m =
     (case snd m of
        [] \<Rightarrow> (StartError ''executable file not found'', fst m, [])
      | r # rs \<Rightarrow> (r, fst m, rs))"

definition testRepo :: Git where
  "testRepo = \<lparr>location = ''/home/ux/tmp/versioned-vcblobstore/test-git-repo''\<rparr>"

definition emptyRepo :: "proc_outcome list \<Rightarrow> proc_outcome list world" where
  "emptyRepo script = \<lparr>files = Map.empty, store = script, invoked = [], procenv = Map.empty\<rparr>"

text \<open>
  A working tree that holds one file that was never committed, and no blob.
\<close>

definition dirtyRepo :: "proc_outcome list \<Rightarrow> proc_outcome list world" where
  "dirtyRepo script =
     \<lparr>files = [filepath_Join (location testRepo) ''leftover.tmp'' \<mapsto> ''x''],
      store = script, invoked = [], procenv = Map.empty\<rparr>"

subsection \<open>Reading results\<close>

text \<open>The command line \<open>git args\<close> run in the repository's directory.\<close>

definition git :: "Git \<Rightarrow> string list \<Rightarrow> ExecCmdParams" where
  "git repo args = \<lparr>Name = ''git'', Args = args, Opts = Some \<lparr>Cwd = location repo\<rparr>\<rparr>"

text \<open>A returned error is of the NotFound class when it wraps \<open>ErrBlobNotFound\<close>.\<close>

definition isNotFound :: "goerror option \<Rightarrow> bool" where
  "isNotFound err = (case err of None \<Rightarrow> False | Some e \<Rightarrow> errors_Is e ErrBlobNotFound)"

section \<open>Commit metadata (package \<open>git\<close>)\<close>

subsection \<open>More of package \<open>strings\<close>\<close>

fun strings_Index :: "string \<Rightarrow> string \<Rightarrow> int" where
  "strings_Index [] substr = (if substr = [] then 0 else - 1)"
| "strings_Index (c # cs) substr =
     (if strings_HasPrefix (c # cs) substr then 0
      else let i = strings_Index cs substr in if i < 0 then - 1 else i + 1)"

text \<open>\<open>strings.Split\<close> on a separator of one byte: one piece more than separators.\<close>

fun splitOn :: "char \<Rightarrow> string \<Rightarrow> string list" where
  "splitOn sep [] = [[]]"
| "splitOn sep (c # cs) =
     (if c = sep then [] # splitOn sep cs
      else (case splitOn sep cs of
              piece # pieces \<Rightarrow> (c # piece) # pieces
            | [] \<Rightarrow> [[c]]))"

definition strings_Trim :: "string \<Rightarrow> string \<Rightarrow> string" where
  "strings_Trim s cutset =
     rev (dropWhile (\<lambda>c. c \<in> set cutset) (rev (dropWhile (\<lambda>c. c \<in> set cutset) s)))"

fun strings_Join :: "string list \<Rightarrow> string \<Rightarrow> string" where
  "strings_Join [] sep = []"
| "strings_Join [x] sep = x"
| "strings_Join (x # y # ys) sep = x @ sep @ strings_Join (y # ys) sep"

subsection \<open>The data model\<close>

record CommitQueryResponseItem =
  Id :: string
  CommittedDate :: string
  q_Message :: string
  AuthorName :: string
  AuthorEmail :: string
  AuthoredDate :: string
  CommitterName :: string
  CommitterEmail :: string

text \<open>\<open>'t\<close> is \<open>time.Time\<close>.\<close>

record 't CommitMetadata =
  Author :: string
  AuthorDate :: 't
  Commit :: string
  CommitDate :: 't
  Message :: string

text \<open>
  What the parsers use of package \<open>time\<close>: \<open>time.Parse(time.RFC3339, s)\<close> and the zero
  value \<open>time.Time{}\<close>.  The package is not part of the repository, so the parsers take it
  as a parameter.
\<close>

record 't timepkg =
  Parse_RFC3339 :: "string \<Rightarrow> goerror + 't"
  zeroTime :: 't

definition zeroMetadata :: "'t timepkg \<Rightarrow> 't CommitMetadata" where
  "zeroMetadata tp =
     \<lparr>Author = [], AuthorDate = zeroTime tp, Commit = [], CommitDate = zeroTime tp, Message = []\<rparr>"

subsection \<open>The four regular expressions\<close>

text \<open>The class \<open>\s\<close> of package \<open>regexp\<close>: tab, line feed, form feed, carriage return, space.\<close>

definition isRegexpSpace :: "char \<Rightarrow> bool" where
  "isRegexpSpace c = (c \<in> set [CHR 0x09, CHR 0x0A, CHR 0x0C, CHR 0x0D, CHR '' ''])"

text \<open>
  The pattern \<open>^[\s]+(.+)$\<close> on a whole string, giving the group.  Both repetitions are
  greedy and the first is tried first: the white space takes all it can while one
  byte is left for the group; \<open>.\<close> does not match a line feed.
\<close>

definition matchSpacesThenAny :: "string \<Rightarrow> string option" where
  "matchSpacesThenAny s =
     (let ws = takeWhile isRegexpSpace s;
          rest = dropWhile isRegexpSpace s
      in if ws = [] then None
         else if rest \<noteq> [] then (if CHR 0x0A \<in> set rest then None else Some rest)
         else if 2 \<le> length ws \<and> last ws \<noteq> CHR 0x0A then Some [last ws]
         else None)"

datatype regexp = authorRegexp | authorDateRegexp | commitRegexp | commitDateRegexp

text \<open>\<open>^Name:[\s]+(.+)$\<close>: the whole match and the group.\<close>

definition matchField :: "string \<Rightarrow> string \<Rightarrow> string list option" where
  "matchField name line =
     (if strings_HasPrefix line name
      then (case matchSpacesThenAny (drop (length name) line) of
              None \<Rightarrow> None
            | Some g1 \<Rightarrow> Some [line, g1])
      else None)"

text \<open>
  \<open>^Name:[\s]+(.+)([0-9]{2})([0-9]{2})$\<close>: the last four bytes are the two pairs of
  digits, and what stands between the name and them matches \<open>[\s]+(.+)\<close>.
\<close>

definition matchDate :: "string \<Rightarrow> string \<Rightarrow> string list option" where
  "matchDate name line =
     (if strings_HasPrefix line name
      then (let rest = drop (length name) line; n = length rest
            in if n < 4 \<or> \<not> list_all isDigit (drop (n - 4) rest) then None
               else (case matchSpacesThenAny (take (n - 4) rest) of
                       None \<Rightarrow> None
                     | Some g1 \<Rightarrow> Some [line, g1, take 2 (drop (n - 4) rest), drop (n - 2) rest]))
      else None)"

fun FindStringSubmatch :: "regexp \<Rightarrow> string \<Rightarrow> string list option" where
  "FindStringSubmatch authorRegexp line = matchField ''Author:'' line"
| "FindStringSubmatch authorDateRegexp line = matchDate ''AuthorDate:'' line"
| "FindStringSubmatch commitRegexp line = matchField ''Commit:'' line"
| "FindStringSubmatch commitDateRegexp line = matchDate ''CommitDate:'' line"

definition MatchString :: "regexp \<Rightarrow> string \<Rightarrow> bool" where
  "MatchString rexp line = (FindStringSubmatch rexp line \<noteq> None)"

subsection \<open>The local parser\<close>

definition parseTimeFromLocalCommitOutput ::
  "'t timepkg \<Rightarrow> regexp \<Rightarrow> string \<Rightarrow> 't \<times> bool \<times> goerror option" where
  "parseTimeFromLocalCommitOutput tp rexp line =
     (if MatchString rexp line
      then (case FindStringSubmatch rexp line of
              None \<Rightarrow> (zeroTime tp, False, None)
            | Some submatch \<Rightarrow>
                let rfc3339 = submatch ! 1 @ submatch ! 2 @ '':'' @ submatch ! 3
                in (case Parse_RFC3339 tp rfc3339 of
                      Inl err \<Rightarrow>
                        (zeroTime tp, False,
                         Some (Wrapf (''failed to parse time '' @ [CHR 0x60] @ rfc3339 @ [CHR 0x60] @
                                      '' as RFC3339: '') err []))
                    | Inr t \<Rightarrow> (t, True, None)))
      else (zeroTime tp, False, None))"

text \<open>
  The loop of \<open>ParseLocalCommitMetadata\<close> over the lines, with the metadata and the
  message buffer built so far; an error ends it at once.
\<close>

fun parseLines ::
  "'t timepkg \<Rightarrow> string list \<Rightarrow> 't CommitMetadata \<Rightarrow> string list
     \<Rightarrow> 't CommitMetadata \<times> string list \<times> goerror option" where
  "parseLines tp [] commitMetadata commitMessageBuffer =
     (commitMetadata, commitMessageBuffer, None)"
| "parseLines tp (line # lines) commitMetadata commitMessageBuffer =
     (case FindStringSubmatch authorRegexp line of
        Some submatch \<Rightarrow>
          parseLines tp lines (commitMetadata\<lparr>Author := submatch ! 1\<rparr>) commitMessageBuffer
      | None \<Rightarrow>
          (case FindStringSubmatch commitRegexp line of
             Some submatch \<Rightarrow>
               parseLines tp lines (commitMetadata\<lparr>Commit := submatch ! 1\<rparr>) commitMessageBuffer
           | None \<Rightarrow>
               (case parseTimeFromLocalCommitOutput tp authorDateRegexp line of
                  (tim, found, Some err) \<Rightarrow> (commitMetadata, commitMessageBuffer, Some err)
                | (tim, found, None) \<Rightarrow>
                    if found
                    then parseLines tp lines (commitMetadata\<lparr>AuthorDate := tim\<rparr>)
                           commitMessageBuffer
                    else
                      (case parseTimeFromLocalCommitOutput tp commitDateRegexp line of
                         (tim, found, Some err) \<Rightarrow> (commitMetadata, commitMessageBuffer, Some err)
                       | (tim, found, None) \<Rightarrow>
                           if found
                           then parseLines tp lines (commitMetadata\<lparr>CommitDate := tim\<rparr>)
                                  commitMessageBuffer
                           else if strings_Index line ''    '' = 0
                           then parseLines tp lines commitMetadata
                                  (commitMessageBuffer @ [strings_Trim line [CHR '' '', CHR 0x09]])
                           else parseLines tp lines commitMetadata commitMessageBuffer))))"

definition ParseLocalCommitMetadata ::
  "'t timepkg \<Rightarrow> string \<Rightarrow> 't CommitMetadata \<times> goerror option" where
  "ParseLocalCommitMetadata tp metadata =
     (let lines = splitOn (CHR 0x0A) metadata
      in case parseLines tp lines (zeroMetadata tp) [] of
           (commitMetadata, commitMessageBuffer, Some err) \<Rightarrow> (commitMetadata, Some err)
         | (commitMetadata, commitMessageBuffer, None) \<Rightarrow>
             (commitMetadata\<lparr>Message := strings_Join commitMessageBuffer [CHR 0x0A]\<rparr>, None))"

subsection \<open>The remote parser\<close>

definition GitlabCommitResponseToMetadata ::
  "'t timepkg \<Rightarrow> CommitQueryResponseItem \<Rightarrow> 't CommitMetadata \<times> goerror option" where
  "GitlabCommitResponseToMetadata tp response =
     (case Parse_RFC3339 tp (AuthoredDate response) of
        Inl err \<Rightarrow>
          (zeroMetadata tp,
           Some (Wrapf (''failed to parse time '' @ [CHR 0x60] @ AuthoredDate response @ [CHR 0x60] @
                        '' as RFC3339: '') err []))
      | Inr authorDate \<Rightarrow>
          (case Parse_RFC3339 tp (CommittedDate response) of
             Inl err \<Rightarrow>
               (zeroMetadata tp,
                Some (Wrapf (''failed to parse time '' @ [CHR 0x60] @ CommittedDate response @
                             [CHR 0x60] @ '' as RFC3339: '') err []))
           | Inr commitDate \<Rightarrow>
               (\<lparr>Author = AuthorName response @ '' <'' @ AuthorEmail response @ ''>'',
                 AuthorDate = authorDate,
                 Commit = CommitterName response @ '' <'' @ CommitterEmail response @ ''>'',
                 CommitDate = commitDate,
                 Message = []\<rparr>, None)))"

subsection \<open>Date lines\<close>

text \<open>The two date patterns and the label each one looks for.\<close>

definition isDateRegexp :: "regexp \<Rightarrow> bool" where
  "isDateRegexp rexp = (rexp = authorDateRegexp \<or> rexp = commitDateRegexp)"

definition dateLabel :: "regexp \<Rightarrow> string" where
  "dateLabel rexp = (if rexp = commitDateRegexp then ''CommitDate:'' else ''AuthorDate:'')"

text \<open>The field of the metadata that a line of each date pattern is stored in.\<close>

definition dateField :: "regexp \<Rightarrow> 't CommitMetadata \<Rightarrow> 't" where
  "dateField rexp commitMetadata =
     (if rexp = commitDateRegexp then CommitDate commitMetadata else AuthorDate commitMetadata)"

text \<open>The error of the parsers for a timestamp that \<open>time.Parse\<close> refuses.\<close>

definition timeParseError :: "string \<Rightarrow> goerror \<Rightarrow> goerror" where
  "timeParseError rfc3339 err =
     Wrapf (''failed to parse time '' @ [CHR 0x60] @ rfc3339 @ [CHR 0x60] @ '' as RFC3339: '') err []"

subsection \<open>A reader of plain timestamps\<close>

text \<open>
  A reader of timestamps of the plain form \<open>YYYY-MM-DDTHH:MM:SS\<close> followed by \<open>Z\<close> or
  \<open>+HH:MM\<close> or \<open>-HH:MM\<close>, with the fields range-checked.  It stands for \<open>time.Parse\<close> on
  concrete timestamps of that form; a time is its civil fields and its offset in minutes.
\<close>

record civil =
  year :: nat
  month :: nat
  day :: nat
  hour :: nat
  minute :: nat
  second :: nat
  offsetMinutes :: int

definition number :: "string \<Rightarrow> nat option" where
  "number ds = (if ds \<noteq> [] \<and> list_all isDigit ds
                then Some (foldl (\<lambda>acc c. 10 * acc + digitVal c) 0 ds) else None)"

definition daysIn :: "nat \<Rightarrow> nat \<Rightarrow> nat" where
  "daysIn y m =
     (if m = 2 then (if y mod 4 = 0 \<and> (y mod 100 \<noteq> 0 \<or> y mod 400 = 0) then 29 else 28)
      else if m \<in> set [4, 6, 9, 11] then 30 else 31)"

definition readOffset :: "string \<Rightarrow> int option" where
  "readOffset z =
     (if z = ''Z'' then Some 0
      else if length z = 6 \<and> (z ! 0 = CHR ''+'' \<or> z ! 0 = CHR ''-'') \<and> z ! 3 = CHR '':''
      then (case (number (take 2 (drop 1 z)), number (drop 4 z)) of
              (Some h, Some m) \<Rightarrow>
                if h \<le> 24 \<and> m \<le> 60
                then Some ((if z ! 0 = CHR ''-'' then - 1 else 1) * int (60 * h + m))
                else None
            | _ \<Rightarrow> None)
      else None)"

definition readTimestamp :: "string \<Rightarrow> goerror + civil" where
  "readTimestamp s =
     (let bad = Inl (ErrorString (''parsing time '' @ s @ '': cannot parse as RFC3339''))
      in if length s < 20 \<or> s ! 4 \<noteq> CHR ''-'' \<or> s ! 7 \<noteq> CHR ''-'' \<or> s ! 10 \<noteq> CHR ''T''
            \<or> s ! 13 \<noteq> CHR '':'' \<or> s ! 16 \<noteq> CHR '':''
         then bad
         else (case (number (take 4 s), number (take 2 (drop 5 s)), number (take 2 (drop 8 s)),
                     number (take 2 (drop 11 s)), number (take 2 (drop 14 s)),
                     number (take 2 (drop 17 s)), readOffset (drop 19 s)) of
                 (Some y, Some mo, Some d, Some h, Some mi, Some sec, Some off) \<Rightarrow>
                   if 1 \<le> mo \<and> mo \<le> 12 \<and> 1 \<le> d \<and> d \<le> daysIn y mo \<and> h < 24 \<and> mi < 60 \<and> sec < 60
                   then Inr \<lparr>year = y, month = mo, day = d, hour = h, minute = mi, second = sec,
                             offsetMinutes = off\<rparr>
                   else bad
               | _ \<Rightarrow> bad))"

definition plainTime :: "civil timepkg" where
  "plainTime = \<lparr>Parse_RFC3339 = readTimestamp,
                 zeroTime = \<lparr>year = 1, month = 1, day = 1, hour = 0, minute = 0, second = 0,
                             offsetMinutes = 0\<rparr>\<rparr>"

subsection \<open>One commit, seen both ways\<close>

text \<open>
  The commit of the repository's parser test: \<open>testLog\<close> is what the local \<open>git show\<close>
  prints for it (with the letters of the names in ASCII), \<open>testResponse\<close> the record the
  host returns for it.
\<close>

definition testLog :: string where
  "testLog =
     ''Author:     Kovacs, Peter <peter.dunay.kovacs@gmail.com>'' @ [CHR 0x0A] @
     ''AuthorDate: 2022-10-09T13:42:12+0200'' @ [CHR 0x0A] @
     ''Commit:     Peter Kovacs <peter.dunay.kovacs@gmail.com>'' @ [CHR 0x0A] @
     ''CommitDate: 2022-10-31T15:30:17+0100'' @ [CHR 0x0A] @
     [CHR 0x09] @ [CHR 0x0A] @
     ''    [DEV] distributed git access''"

definition testResponse :: CommitQueryResponseItem where
  "testResponse =
     \<lparr>Id = ''95fb34a325e697bafffb785ac65ecca986ca06a6'',
      CommittedDate = ''2022-10-31T15:30:17+01:00'',
      q_Message = ''[DEV] distributed git access'',
      AuthorName = ''Kovacs, Peter'',
      AuthorEmail = ''peter.dunay.kovacs@gmail.com'',
      AuthoredDate = ''2022-10-09T13:42:12+02:00'',
      CommitterName = ''Peter Kovacs'',
      CommitterEmail = ''peter.dunay.kovacs@gmail.com''\<rparr>"

definition testMetadata :: "civil CommitMetadata" where
  "testMetadata =
     \<lparr>Author = ''Kovacs, Peter <peter.dunay.kovacs@gmail.com>'',
      AuthorDate = \<lparr>year = 2022, month = 10, day = 9, hour = 13, minute = 42, second = 12,
                    offsetMinutes = 120\<rparr>,
      Commit = ''Peter Kovacs <peter.dunay.kovacs@gmail.com>'',
      CommitDate = \<lparr>year = 2022, month = 10, day = 31, hour = 15, minute = 30, second = 17,
                    offsetMinutes = 60\<rparr>,
      Message = []\<rparr>"

section \<open>Properties\<close>

subsection \<open>The remote backend\<close>

text \<open>
  Claim C9.  The remote backend's \<open>CheckStatus\<close> returns \<open>(true, nil)\<close> for every
  repository handle: the status is always reported clean and no error is ever returned.
\<close>

theorem Gitlab_CheckStatus_always_clean:
  "Gitlab_CheckStatus g = (True, None)"
  by (simp add: Gitlab_CheckStatus_def)

lemma toCommitAction_eq:
  "toCommitAction a =
     \<lparr>ca_Action = bs_Action a, ca_FilePath = bs_FilePath a,
      ca_Content = (if length (bs_Content a) > 1
                    then Some (base64_EncodeToString (bs_Content a)) else None),
      ca_Encoding = (if length (bs_Content a) > 1 then Some ''base64'' else None)\<rparr>"
  by (simp add: toCommitAction_def Let_def)

text \<open>
  What the coercion does: nothing to a string that is valid UTF-8, in particular nothing
  to ASCII text and to base64 text; a byte that begins no sequence becomes U+FFFD.
\<close>

lemma toValidUTF8_valid: "utf8_ValidString s \<Longrightarrow> toValidUTF8 s = s"
  by (induction s rule: utf8_ValidString.induct) auto

lemma marshal_string_valid: "utf8_ValidString s \<Longrightarrow> marshal_string s = JString s"
  by (simp add: marshal_string_def toValidUTF8_valid)

lemma runeLen_ascii: "(of_char c :: nat) < 128 \<Longrightarrow> runeLen (c # cs) = 1"
  by (simp add: runeLen_def)

lemma utf8_ValidString_ascii:
  "list_all (\<lambda>c. (of_char c :: nat) < 128) s \<Longrightarrow> utf8_ValidString s"
  by (induction s) (simp_all add: runeLen_ascii)

lemma marshal_string_ascii:
  "list_all (\<lambda>c. (of_char c :: nat) < 128) s \<Longrightarrow> marshal_string s = JString s"
  by (simp add: marshal_string_valid utf8_ValidString_ascii)

lemma marshal_string_empty: "marshal_string [] = JString []"
  by (simp add: marshal_string_def)

lemma marshal_string_invalid_byte:
  "marshal_string [CHR ''k'', CHR 0xFF] = JString [CHR ''k'', CHR 0xEF, CHR 0xBF, CHR 0xBD]"
  by (simp add: marshal_string_def runeLen_def continuation_def replacementChar_def)

lemma b64_ascii: "(of_char (b64 n) :: nat) < 128"
proof -
  have "\<forall>c \<in> set encodeStd. (of_char c :: nat) < 128"
    by (simp add: encodeStd_def)
  moreover have "b64 n \<in> set encodeStd"
    unfolding b64_def by (rule nth_mem) (simp add: encodeStd_def)
  ultimately show ?thesis by blast
qed

lemma encode_octets_ascii: "list_all (\<lambda>c. (of_char c :: nat) < 128) (encode_octets bs)"
  by (induction bs rule: encode_octets.induct) (simp_all add: b64_ascii)

lemma marshal_string_base64:
  "marshal_string (base64_EncodeToString src) = JString (base64_EncodeToString src)"
  by (simp add: marshal_string_ascii base64_EncodeToString_def encode_octets_ascii)

lemma marshal_toCommitAction:
  "marshal_commitAction (toCommitAction a) =
     JObject [(''action'', marshal_string (bs_Action a)),
              (''file_path'', marshal_string (bs_FilePath a)),
              (''content'', if length (bs_Content a) > 1
                            then JString (base64_EncodeToString (bs_Content a)) else JNull),
              (''encoding'', if length (bs_Content a) > 1 then JString ''base64'' else JNull)]"
  by (simp add: toCommitAction_eq marshal_commitAction_def marshal_string_ptr_def
      marshal_string_base64 marshal_string_ascii)

lemma createCommitBody_eq:
  "createCommitBody g authorName message actionsIn =
     Inr (JObject
       [(''branch'', marshal_string (mainBranch g)),
        (''author_name'', marshal_string authorName),
        (''commit_message'', marshal_string message),
        (''actions'', JArray (map (\<lambda>a. marshal_commitAction (toCommitAction a)) actionsIn))])"
  by (simp add: createCommitBody_def commitActions_def marshal_commitProperties_def Let_def comp_def)

lemma sendRequest_events:
  "events (snd (sendRequest svc g method apiCallPath body w)) =
     events w @ [Request method apiCallPath body]"
  by (simp add: sendRequest_def Let_def split: prod.splits http_outcome.splits sum.splits)

lemma sendRequest_events':
  "sendRequest svc g verb apiCallPath body w = (r, w') \<Longrightarrow>
     events w' = events w @ [Request verb apiCallPath body]"
  using sendRequest_events[of svc g verb apiCallPath body w] by simp

lemma Gitlab_commit_events:
  "events (snd (Gitlab_commit svc g authorName message actions w)) =
     events w @
     (if os_Getenv (environ w) SimulateGitCommitFailureEnvvarName = ''true'' then []
      else case createCommitBody g authorName message actions of
             Inl e \<Rightarrow> []
           | Inr commitBody \<Rightarrow> [Request ''POST'' (commitsPath g) (Some commitBody)])"
  by (auto simp: Gitlab_commit_def createCommitBody_eq dest: sendRequest_events'
      split: prod.splits)

lemma Gitlab_AddBlob_world:
  "snd (Gitlab_AddBlob svc g blob w) =
     snd (Gitlab_commit svc g (ModifiedBy blob) (''Adding Blob: '' @ Key blob)
            [\<lparr>bs_Action = commitActionCreate, bs_FilePath = Key blob,
              bs_Content = Content blob\<rparr>] w)"
  by (simp add: Gitlab_AddBlob_def Let_def split: prod.splits option.splits)

text \<open>
  Claim C7, as amended.  In the request body built from a list of actions, every action is
  an object with the four members \<open>action\<close>, \<open>file_path\<close>, \<open>content\<close> and \<open>encoding\<close>, in the
  order of the input.  The action type and the file path are written as \<open>json.Marshal\<close>
  writes a string: coerced to valid UTF-8, every byte that begins no well-formed sequence
  replaced by U+FFFD; when they are valid UTF-8 they are copied through unchanged.  An
  action whose content is longer than one byte carries the base64 encoding of the content
  and the encoding tag \<open>base64\<close>; an action whose content is at most one byte long carries
  \<open>null\<close> for both \<open>content\<close> and \<open>encoding\<close>.
\<close>

theorem createCommitBody_content_and_encoding:
  "request_actions (createCommitBody g authorName message actionsIn) =
     map (\<lambda>a. JObject
            [(''action'', JString (toValidUTF8 (bs_Action a))),
             (''file_path'', JString (toValidUTF8 (bs_FilePath a))),
             (''content'', if length (bs_Content a) > 1
                           then JString (base64_EncodeToString (bs_Content a)) else JNull),
             (''encoding'', if length (bs_Content a) > 1 then JString ''base64'' else JNull)])
         actionsIn
   \<and> ((\<forall>a \<in> set actionsIn. utf8_ValidString (bs_Action a) \<and> utf8_ValidString (bs_FilePath a))
        \<longrightarrow>
        request_actions (createCommitBody g authorName message actionsIn) =
          map (\<lambda>a. JObject
                 [(''action'', JString (bs_Action a)),
                  (''file_path'', JString (bs_FilePath a)),
                  (''content'', if length (bs_Content a) > 1
                                then JString (base64_EncodeToString (bs_Content a)) else JNull),
                  (''encoding'', if length (bs_Content a) > 1 then JString ''base64'' else JNull)])
              actionsIn)"
proof -
  have body: "request_actions (createCommitBody g authorName message actionsIn) =
     map (\<lambda>a. JObject
            [(''action'', JString (toValidUTF8 (bs_Action a))),
             (''file_path'', JString (toValidUTF8 (bs_FilePath a))),
             (''content'', if length (bs_Content a) > 1
                           then JString (base64_EncodeToString (bs_Content a)) else JNull),
             (''encoding'', if length (bs_Content a) > 1 then JString ''base64'' else JNull)])
         actionsIn"
    by (simp add: createCommitBody_eq request_actions_def json_field_def marshal_toCommitAction
        marshal_string_def)
  then show ?thesis
    by (simp add: toValidUTF8_valid)
qed

text \<open>
  A create action and a delete action with keys in ASCII: both keys arrive unchanged, the
  content \<open>zazie\<close> as its base64 text.
\<close>

theorem createCommitBody_content_and_encoding_witness:
  "utf8_ValidString ''create'' \<and> utf8_ValidString ''metro-zazie'' \<and>
   utf8_ValidString ''delete'' \<and> utf8_ValidString ''zazie-icon'' \<and>
   request_actions (createCommitBody testGitlab ''ux'' ''two actions''
      [\<lparr>bs_Action = ''create'', bs_FilePath = ''metro-zazie'', bs_Content = ''zazie''\<rparr>,
       \<lparr>bs_Action = ''delete'', bs_FilePath = ''zazie-icon'', bs_Content = []\<rparr>])
     = [JObject [(''action'', JString ''create''),
                 (''file_path'', JString ''metro-zazie''),
                 (''content'', JString ''emF6aWU=''),
                 (''encoding'', JString ''base64'')],
        JObject [(''action'', JString ''delete''),
                 (''file_path'', JString ''zazie-icon''),
                 (''content'', JNull),
                 (''encoding'', JNull)]]"
proof -
  have v: "utf8_ValidString ''create''" "utf8_ValidString ''metro-zazie''"
    "utf8_ValidString ''delete''" "utf8_ValidString ''zazie-icon''"
    by (simp_all add: utf8_ValidString_ascii del: utf8_ValidString.simps)
  have b: "base64_EncodeToString ''zazie'' = ''emF6aWU=''"
    by (simp add: base64_EncodeToString_def b64_def encodeStd_def)
  from createCommitBody_content_and_encoding[of testGitlab "''ux''" "''two actions''"
      "[\<lparr>bs_Action = ''create'', bs_FilePath = ''metro-zazie'', bs_Content = ''zazie''\<rparr>,
        \<lparr>bs_Action = ''delete'', bs_FilePath = ''zazie-icon'', bs_Content = []\<rparr>]"] v b
  show ?thesis
    by (simp add: toValidUTF8_valid del: utf8_ValidString.simps toValidUTF8.simps)
qed

text \<open>A file path with a byte that is no UTF-8 arrives with U+FFFD in its place.\<close>

lemma createCommitBody_invalid_path_run:
  "request_actions (createCommitBody testGitlab ''ux'' ''Deleting blob''
      [\<lparr>bs_Action = ''delete'', bs_FilePath = [CHR ''k'', CHR 0xFF], bs_Content = []\<rparr>])
     = [JObject [(''action'', JString ''delete''),
                 (''file_path'', JString [CHR ''k'', CHR 0xEF, CHR 0xBF, CHR 0xBD]),
                 (''content'', JNull),
                 (''encoding'', JNull)]]"
  by (simp add: createCommitBody_eq request_actions_def json_field_def marshal_toCommitAction
      marshal_string_ascii marshal_string_invalid_byte)

text \<open>
  Claim C7 as stated says that an action with at most one byte of content omits the
  \<open>content\<close> and \<open>encoding\<close> members.  The body of a delete action with empty content has
  both members, each bound to \<open>null\<close>.
\<close>

theorem createCommitBody_empty_content_not_omitted:
  "request_actions (createCommitBody testGitlab ''ux'' ''Deleting blob: metro-zazie''
      [\<lparr>bs_Action = commitActionDelete, bs_FilePath = ''metro-zazie'', bs_Content = []\<rparr>])
     = [JObject [(''action'', JString ''delete''),
                 (''file_path'', JString ''metro-zazie''),
                 (''content'', JNull),
                 (''encoding'', JNull)]] \<and>
   json_field (JObject [(''action'', JString ''delete''),
                        (''file_path'', JString ''metro-zazie''),
                        (''content'', JNull),
                        (''encoding'', JNull)]) ''content'' = Some JNull \<and>
   json_field (JObject [(''action'', JString ''delete''),
                        (''file_path'', JString ''metro-zazie''),
                        (''content'', JNull),
                        (''encoding'', JNull)]) ''encoding'' = Some JNull"
  by (simp add: createCommitBody_eq request_actions_def json_field_def marshal_toCommitAction
      commitActionDelete_def marshal_string_ascii)

text \<open>
  Claim C10, as amended.  For every blob, every state of the hosted service and every
  answer it gives, remote \<open>AddBlob\<close> sends exactly one request, a \<open>POST\<close> to the commits
  endpoint whose body holds exactly one action, of type \<open>create\<close> with the blob's key as
  its file path, unless the commit-failure simulation variable is \<open>true\<close>, in which case it
  sends nothing.  No action of any other type, \<open>update\<close> included, is ever sent.  The
  strings taken from the blob and the repository handle stand in the body as
  \<open>json.Marshal\<close> writes them (\<open>marshal_string\<close>).
\<close>

theorem Gitlab_AddBlob_one_create_action:
  "events (snd (Gitlab_AddBlob svc g blob w)) =
     events w @
     (if os_Getenv (environ w) SimulateGitCommitFailureEnvvarName = ''true'' then []
      else [Request ''POST'' (commitsPath g)
              (Some (JObject
                 [(''branch'', marshal_string (mainBranch g)),
                  (''author_name'', marshal_string (ModifiedBy blob)),
                  (''commit_message'', marshal_string (''Adding Blob: '' @ Key blob)),
                  (''actions'', JArray [JObject
                     [(''action'', JString ''create''),
                      (''file_path'', marshal_string (Key blob)),
                      (''content'', if length (Content blob) > 1
                                    then JString (base64_EncodeToString (Content blob)) else JNull),
                      (''encoding'', if length (Content blob) > 1
                                     then JString ''base64'' else JNull)]])]))])"
  by (simp add: Gitlab_AddBlob_world Gitlab_commit_events createCommitBody_eq
      marshal_toCommitAction commitActionCreate_def marshal_string_ascii)

text \<open>
  The other operation of the remote backend that commits, \<open>DeleteBlob\<close>, sends one action
  of type \<open>delete\<close> in the same way.
\<close>

lemma Gitlab_DeleteBlob_one_delete_action:
  "events (snd (Gitlab_DeleteBlob svc g k modifiedBy w)) =
     events w @
     (if os_Getenv (environ w) SimulateGitCommitFailureEnvvarName = ''true'' then []
      else [Request ''POST'' (commitsPath g)
              (Some (JObject
                 [(''branch'', marshal_string (mainBranch g)),
                  (''author_name'', marshal_string modifiedBy),
                  (''commit_message'', marshal_string (''Deleting blob: '' @ k)),
                  (''actions'', JArray [JObject
                     [(''action'', JString ''delete''),
                      (''file_path'', marshal_string k),
                      (''content'', JNull),
                      (''encoding'', JNull)]])]))])"
proof -
  have "snd (Gitlab_DeleteBlob svc g k modifiedBy w) =
          snd (Gitlab_commit svc g modifiedBy (''Deleting blob: '' @ k)
                 [\<lparr>bs_Action = commitActionDelete, bs_FilePath = k, bs_Content = []\<rparr>] w)"
    by (simp add: Gitlab_DeleteBlob_def split: prod.splits option.splits)
  then show ?thesis
    by (simp add: Gitlab_commit_events createCommitBody_eq marshal_toCommitAction
        commitActionDelete_def marshal_string_ascii)
qed

text \<open>
  Claim C10 as stated says that remote \<open>AddBlob\<close> always submits one commit action.  With
  the commit-failure simulation variable set to \<open>true\<close> it returns an error and sends no
  request at all.
\<close>

theorem Gitlab_AddBlob_submits_nothing_under_toggle:
  "Gitlab_AddBlob replay testGitlab
     \<lparr>Key = ''metro-zazie'', Content = ''zazie'', ModifiedBy = ''ux''\<rparr>
     \<lparr>hosted = [Responded 201 Map.empty (Inr ''{id: 8e9b80b}'')], events = [],
      environ = [SimulateGitCommitFailureEnvvarName \<mapsto> ''true'']\<rparr>
   = (Some (Wrapf ''failed to add Blob to GitLab repo metro-zazie: ''
              (ErrorString ''simulate git commit failure'') []),
      \<lparr>hosted = [Responded 201 Map.empty (Inr ''{id: 8e9b80b}'')], events = [],
       environ = [SimulateGitCommitFailureEnvvarName \<mapsto> ''true'']\<rparr>)"
  by (simp add: Gitlab_AddBlob_def Gitlab_commit_def os_Getenv_def)


subsection \<open>Creating the hosted repository\<close>

lemma CreateRepository_body:
  "createCreateProjectBody g =
     Inr (JObject [(''namespace_id'', JNumber (namespaceId (project g))),
                   (''path'', marshal_string (path (project g))),
                   (''description'', JString []),
                   (''initialize_with_readme'', JString [])])"
  by (simp add: createCreateProjectBody_def marshal_projectProperties_def marshal_string_empty)

text \<open>
  One pass of the loop of \<open>CreateRepository\<close>, by the answer to the creation request.
\<close>

lemma CreateRepository_transport_error:
  assumes "createCreateProjectBody g = Inr requestBody"
    and "sendRequest svc g ''POST'' ''/projects'' (Some requestBody) w =
           ((statusCode, hdr, responseBody, Some e), w1)"
  shows "CreateRepository_loop svc g retryCount w =
           (Return (Some (Wrapf (''failed to create project: ('' @ Itoa statusCode @ '') '' @
                                 responseBody @ '' -- '') e [])), w1)"
  using assms by (simp add: Errorf_w_def)

lemma CreateRepository_other_status:
  assumes "createCreateProjectBody g = Inr requestBody"
    and "sendRequest svc g ''POST'' ''/projects'' (Some requestBody) w =
           ((statusCode, hdr, responseBody, None), w1)"
    and "statusCode \<noteq> 201" "statusCode \<noteq> 400"
  shows "CreateRepository_loop svc g retryCount w =
           (Return (Some (ErrorString (''failed to create project: ('' @ Itoa statusCode @ '') '' @
                                       responseBody @ '' -- %!w(<nil>)''))), w1)"
  using assms by (simp add: Errorf_w_def)

lemma CreateRepository_created:
  assumes "createCreateProjectBody g = Inr requestBody"
    and "sendRequest svc g ''POST'' ''/projects'' (Some requestBody) w =
           ((201, hdr, responseBody, None), w1)"
  shows "CreateRepository_loop svc g retryCount w = (Return None, w1)"
  using assms by simp

lemma CreateRepository_retry:
  assumes "createCreateProjectBody g = Inr requestBody"
    and "sendRequest svc g ''POST'' ''/projects'' (Some requestBody) w =
           ((400, hdr, responseBody, None), w1)"
    and "isTransientGitlabRepoCreationErrMessage responseBody"
    and "Suc retryCount < maxRetryCount"
  shows "CreateRepository_loop svc g retryCount w =
           CreateRepository_loop svc g (Suc retryCount)
             (if strings_Contains responseBody gitlabRepoHasAlreadyBeenTaken
              then time_Sleep sleepBeforeRetryMs
                     (snd (Gitlab_DeleteRepository svc g (time_Sleep sleepBeforeRetryMs w1)))
              else time_Sleep sleepBeforeRetryMs w1)"
  using assms by (subst CreateRepository_loop.simps) (simp add: Let_def)

lemma CreateRepository_too_many_retries:
  assumes "createCreateProjectBody g = Inr requestBody"
    and "sendRequest svc g ''POST'' ''/projects'' (Some requestBody) w =
           ((400, hdr, responseBody, None), w1)"
    and "isTransientGitlabRepoCreationErrMessage responseBody"
    and "maxRetryCount \<le> Suc retryCount"
  shows "CreateRepository_loop svc g retryCount w =
           (Panic ''Too many retries creating GitLab repo'', w1)"
  using assms by simp

lemma unrecognised_message:
  "\<not> isTransientGitlabRepoCreationErrMessage ''{message: {namespace: [is not valid]}}''"
  by (simp add: isTransientGitlabRepoCreationErrMessage_def
      transientGitlabRepoCreationErrMessages_def gitlabRepoHasAlreadyBeenTaken_def)

text \<open>
  Claim C3 says that every failing creation response other than a recognised transient
  conflict is returned to the caller as an error.  A response with status 400 whose body
  holds no recognised transient message is a failing response of that kind, and
  \<open>CreateRepository\<close> returns \<open>nil\<close> for it after that single request: the failure is
  reported as success.
\<close>

theorem CreateRepository_unrecognised_400_reported_as_success:
  assumes "createCreateProjectBody g = Inr requestBody"
    and "sendRequest svc g ''POST'' ''/projects'' (Some requestBody) w =
           ((400, hdr, responseBody, None), w1)"
    and "\<not> isTransientGitlabRepoCreationErrMessage responseBody"
  shows "Gitlab_CreateRepository svc g w = (Return None, w1)"
  using assms by (simp add: Gitlab_CreateRepository_def)

text \<open>The host refuses the namespace with status 400; \<open>CreateRepository\<close> returns \<open>nil\<close>.\<close>

theorem CreateRepository_unrecognised_400_witness:
  "Gitlab_CreateRepository replay testGitlab
      \<lparr>hosted = [Responded 400 Map.empty (Inr ''{message: {namespace: [is not valid]}}'')],
       events = [], environ = Map.empty\<rparr>
   = (Return None,
      \<lparr>hosted = [],
       events = [Request ''POST'' ''/projects''
                   (Some (JObject [(''namespace_id'', JNumber 7),
                                   (''path'', JString ''testing-with-repositories''),
                                   (''description'', JString []),
                                   (''initialize_with_readme'', JString [])]))],
       environ = Map.empty\<rparr>)"
proof (rule CreateRepository_unrecognised_400_reported_as_success
    [where hdr = "Some Map.empty" and responseBody = "''{message: {namespace: [is not valid]}}''"])
  show "createCreateProjectBody testGitlab =
          Inr (JObject [(''namespace_id'', JNumber 7),
                        (''path'', JString ''testing-with-repositories''),
                        (''description'', JString []),
                        (''initialize_with_readme'', JString [])])"
    by (simp add: CreateRepository_body testGitlab_def marshal_string_ascii)
  show "sendRequest replay testGitlab ''POST'' ''/projects''
          (Some (JObject [(''namespace_id'', JNumber 7),
                          (''path'', JString ''testing-with-repositories''),
                          (''description'', JString []),
                          (''initialize_with_readme'', JString [])]))
          \<lparr>hosted = [Responded 400 Map.empty (Inr ''{message: {namespace: [is not valid]}}'')],
           events = [], environ = Map.empty\<rparr>
        = ((400, Some Map.empty, ''{message: {namespace: [is not valid]}}'', None),
           \<lparr>hosted = [],
            events = [Request ''POST'' ''/projects''
                        (Some (JObject [(''namespace_id'', JNumber 7),
                                        (''path'', JString ''testing-with-repositories''),
                                        (''description'', JString []),
                                        (''initialize_with_readme'', JString [])]))],
            environ = Map.empty\<rparr>)"
    by (simp add: sendRequest_def replay_def Header_Get_def)
  show "\<not> isTransientGitlabRepoCreationErrMessage ''{message: {namespace: [is not valid]}}''"
    by (rule unrecognised_message)
qed

text \<open>
  Runs of the retry loop.  On the message that the path is taken the backend pauses,
  asks for the deletion of the project (whatever the answer to that), pauses again and
  tries once more; on the message that the project is still being deleted it pauses once.
\<close>

lemma CreateRepository_self_heal_run:
  "Gitlab_CreateRepository replay testGitlab
      \<lparr>hosted = [Responded 400 Map.empty (Inr ''{message: {path: [has already been taken]}}''),
                 Responded 500 Map.empty (Inr ''{message: 500 Internal Server Error}''),
                 Responded 201 Map.empty (Inr ''{id: 7}'')],
       events = [], environ = Map.empty\<rparr>
   = (Return None,
      \<lparr>hosted = [],
       events = [Request ''POST'' ''/projects''
                   (Some (JObject [(''namespace_id'', JNumber 7),
                                   (''path'', JString ''testing-with-repositories''),
                                   (''description'', JString []),
                                   (''initialize_with_readme'', JString [])])),
                 Sleep 1000,
                 Request ''DELETE''
                   ''/projects/testing-with-repositories%2Ftesting-with-repositories'' None,
                 Sleep 1000,
                 Request ''POST'' ''/projects''
                   (Some (JObject [(''namespace_id'', JNumber 7),
                                   (''path'', JString ''testing-with-repositories''),
                                   (''description'', JString []),
                                   (''initialize_with_readme'', JString [])]))],
       environ = Map.empty\<rparr>)"
  by (simp add: Gitlab_CreateRepository_def CreateRepository_body testGitlab_def marshal_string_ascii
      sendRequest_def replay_def Header_Get_def isTransientGitlabRepoCreationErrMessage_def
      transientGitlabRepoCreationErrMessages_def gitlabRepoHasAlreadyBeenTaken_def
      maxRetryCount_def sleepBeforeRetryMs_def time_Sleep_def Gitlab_DeleteRepository_def
      gitlabProject_String_def url_PathEscape_def shouldEscape_def hexdigit_def)

lemma CreateRepository_still_deleted_run:
  "Gitlab_CreateRepository replay testGitlab
      \<lparr>hosted = [Responded 400 Map.empty
                   (Inr ''{message: The project is still being deleted. Please try again later.}''),
                 Responded 201 Map.empty (Inr ''{id: 7}'')],
       events = [], environ = Map.empty\<rparr>
   = (Return None,
      \<lparr>hosted = [],
       events = [Request ''POST'' ''/projects''
                   (Some (JObject [(''namespace_id'', JNumber 7),
                                   (''path'', JString ''testing-with-repositories''),
                                   (''description'', JString []),
                                   (''initialize_with_readme'', JString [])])),
                 Sleep 1000,
                 Request ''POST'' ''/projects''
                   (Some (JObject [(''namespace_id'', JNumber 7),
                                   (''path'', JString ''testing-with-repositories''),
                                   (''description'', JString []),
                                   (''initialize_with_readme'', JString [])]))],
       environ = Map.empty\<rparr>)"
  by (simp add: Gitlab_CreateRepository_def CreateRepository_body testGitlab_def marshal_string_ascii
      sendRequest_def replay_def Header_Get_def isTransientGitlabRepoCreationErrMessage_def
      transientGitlabRepoCreationErrMessages_def gitlabRepoHasAlreadyBeenTaken_def
      maxRetryCount_def sleepBeforeRetryMs_def time_Sleep_def)

text \<open>
  On a host that always answers that the project is still being deleted, the twentieth
  creation request is the last: after it the call panics.
\<close>

lemma busy_transient:
  "isTransientGitlabRepoCreationErrMessage
     ''{message: The project is still being deleted. Please try again later.}''"
  by (simp add: isTransientGitlabRepoCreationErrMessage_def
      transientGitlabRepoCreationErrMessages_def)

lemma busy_not_taken:
  "\<not> strings_Contains ''{message: The project is still being deleted. Please try again later.}''
       gitlabRepoHasAlreadyBeenTaken"
  by (simp add: gitlabRepoHasAlreadyBeenTaken_def)

lemma busy_answer:
  "sendRequest busy g ''POST'' ''/projects'' b w =
     ((400, Some Map.empty,
       ''{message: The project is still being deleted. Please try again later.}'', None),
      w\<lparr>events := events w @ [Request ''POST'' ''/projects'' b]\<rparr>)"
  by (simp add: sendRequest_def busy_def Header_Get_def)

lemma busy_loop:
  assumes "createCreateProjectBody g = Inr requestBody"
  shows "maxRetryCount - Suc retryCount = d \<Longrightarrow> retryCount < maxRetryCount \<Longrightarrow>
     CreateRepository_loop busy g retryCount w =
       (Panic ''Too many retries creating GitLab repo'',
        w\<lparr>events := events w @
             concat (replicate d [Request ''POST'' ''/projects'' (Some requestBody), Sleep 1000]) @
             [Request ''POST'' ''/projects'' (Some requestBody)]\<rparr>)"
proof (induction d arbitrary: retryCount w)
  case 0
  then have "maxRetryCount \<le> Suc retryCount" by simp
  from CreateRepository_too_many_retries[OF assms busy_answer busy_transient this]
  show ?case by simp
next
  case (Suc d)
  then have lt: "Suc retryCount < maxRetryCount" and d: "maxRetryCount - Suc (Suc retryCount) = d"
    by simp_all
  have "CreateRepository_loop busy g retryCount w =
          CreateRepository_loop busy g (Suc retryCount)
            (time_Sleep sleepBeforeRetryMs
               (w\<lparr>events := events w @ [Request ''POST'' ''/projects'' (Some requestBody)]\<rparr>))"
    using CreateRepository_retry[OF assms busy_answer busy_transient lt] busy_not_taken
    by simp
  also have "\<dots> = (Panic ''Too many retries creating GitLab repo'',
        w\<lparr>events := events w @
             concat (replicate (Suc d) [Request ''POST'' ''/projects'' (Some requestBody), Sleep 1000]) @
             [Request ''POST'' ''/projects'' (Some requestBody)]\<rparr>)"
    using Suc.IH[OF d, of "time_Sleep sleepBeforeRetryMs
               (w\<lparr>events := events w @ [Request ''POST'' ''/projects'' (Some requestBody)]\<rparr>)"] lt
    by (simp add: time_Sleep_def sleepBeforeRetryMs_def)
  finally show ?case .
qed

lemma CreateRepository_gives_up:
  "Gitlab_CreateRepository busy testGitlab \<lparr>hosted = (), events = [], environ = Map.empty\<rparr> =
     (Panic ''Too many retries creating GitLab repo'',
      \<lparr>hosted = (),
       events = concat (replicate 19
                  [Request ''POST'' ''/projects''
                     (Some (JObject [(''namespace_id'', JNumber 7),
                                   (''path'', JString ''testing-with-repositories''),
                                   (''description'', JString []),
                                   (''initialize_with_readme'', JString [])])), Sleep 1000]) @
                [Request ''POST'' ''/projects''
                     (Some (JObject [(''namespace_id'', JNumber 7),
                                   (''path'', JString ''testing-with-repositories''),
                                   (''description'', JString []),
                                   (''initialize_with_readme'', JString [])]))],
       environ = Map.empty\<rparr>)"
  using busy_loop[of testGitlab _ 0 19 "\<lparr>hosted = (), events = [], environ = Map.empty\<rparr>"]
  by (simp add: Gitlab_CreateRepository_def CreateRepository_body testGitlab_def marshal_string_ascii maxRetryCount_def
      del: CreateRepository_loop.simps replicate.simps)

subsection \<open>The local backend\<close>

lemma ExecuteCommand_invoked:
  "invoked (snd (ExecuteCommand exe params w)) = invoked w @ [params]"
  by (simp add: ExecuteCommand_def Let_def split: prod.splits proc_outcome.splits)

lemma ExecuteGitCommand_invoked:
  "ExecuteGitCommand exe repo args w = (r, w') \<Longrightarrow> invoked w' = invoked w @ [git repo args]"
  using ExecuteCommand_invoked[of exe "git repo args" w]
  by (simp add: ExecuteGitCommand_def git_def)

lemma ExecuteGitCommand_error:
  "ExecuteGitCommand exe repo args w = ((out, Some e), w') \<Longrightarrow>
     (\<exists>m. e = ExecError m) \<or> (\<exists>n. e = ExitError n)"
  by (auto simp add: ExecuteGitCommand_def ExecuteCommand_def Let_def
      split: prod.splits proc_outcome.splits if_splits)

lemma rollback_invoked:
  "invoked (rollback exe repo w) =
     invoked w @ [git repo [''reset'', ''--hard'', ''HEAD''], git repo [''clean'', ''-qfdx'']]"
  by (simp add: rollback_def rollbackCommands_def ExecuteGitCommand_def ExecuteCommand_invoked
      git_def)

text \<open>
  The two steps of the job that are \<open>git\<close> commands: when the staging or the commit fails,
  the job returns the wrapped error and ends with the rollback.
\<close>

lemma stage_failure_rolls_back:
  assumes "blobOperation w = (blobErr, w1)"
    and "ExecuteGitCommand exe repo [''add'', ''-A''] w1 = ((out, Some e), w2)"
  shows "executeBlobManipulationJob exe repo blobOperation messages userName w =
           (Some (Wrapf ''failed to add files to index: '' e ('' -> '' @ out)),
            rollback exe repo w2)"
  using assms by (simp add: executeBlobManipulationJob_def Errorf_w_def)

lemma commit_failure_rolls_back:
  assumes "blobOperation w = (blobErr, w1)"
    and "ExecuteGitCommand exe repo [''add'', ''-A''] w1 = ((out1, None), w2)"
    and "ExecuteGitCommand exe repo (commit (procenv w2) (commitMessage messages) userName) w2
           = ((out, Some e), w3)"
  shows "executeBlobManipulationJob exe repo blobOperation messages userName w =
           (Some (Wrapf ''failed to commit: '' e ('' -> '' @ out)), rollback exe repo w3)"
  using assms by (simp add: executeBlobManipulationJob_def Errorf_w_def)

lemma job_error_cases:
  "fst (executeBlobManipulationJob exe repo blobOperation messages userName w) = Some err \<Longrightarrow>
     \<exists>pre e post. err = Wrapf pre e post \<and> ((\<exists>m. e = ExecError m) \<or> (\<exists>n. e = ExitError n))"
  apply (simp add: executeBlobManipulationJob_def split: prod.splits if_splits)
   apply (auto simp: Errorf_w_def dest: ExecuteGitCommand_error)
  done

lemma job_invoked:
  "\<exists>rest. invoked (snd (executeBlobManipulationJob exe repo blobOperation messages userName w)) =
     invoked (snd (blobOperation w)) @ git repo [''add'', ''-A''] # rest"
  by (auto simp: executeBlobManipulationJob_def rollback_invoked
      dest!: ExecuteGitCommand_invoked split: prod.splits)

text \<open>
  Claim C1 says that a failure of any step of the job, the blob operation included, makes
  the operation return an error and run the rollback.  When the blob operation fails and
  \<open>git add -A\<close> and the commit succeed, \<open>executeBlobManipulationJob\<close> returns \<open>nil\<close>, and
  the only commands run after the blob operation are the staging and the commit: no
  \<open>git reset\<close>, no \<open>git clean\<close>.
\<close>

theorem executeBlobManipulationJob_blob_failure_unreported:
  assumes "blobOperation w = (Some e, w1)"
    and "ExecuteGitCommand exe repo [''add'', ''-A''] w1 = ((out1, None), w2)"
    and "ExecuteGitCommand exe repo (commit (procenv w2) (commitMessage messages) userName) w2
           = ((out2, None), w3)"
  shows "executeBlobManipulationJob exe repo blobOperation messages userName w = (None, w3) \<and>
         invoked w3 = invoked w1 @ [git repo [''add'', ''-A''],
                                     git repo (commit (procenv w2) (commitMessage messages) userName)]"
  using assms ExecuteGitCommand_invoked[OF assms(2)] ExecuteGitCommand_invoked[OF assms(3)]
  by (simp add: executeBlobManipulationJob_def)

text \<open>
  A working tree with a stray uncommitted file: copying from a source blob that does not
  exist fails, the staging and the commit succeed (there is the stray file to commit), and
  the job returns \<open>nil\<close> and runs no rollback command.
\<close>

theorem executeBlobManipulationJob_blob_failure_witness:
  "copyBlobContents (filepath_Join (location testRepo) ''metro-zazie'')
       (filepath_Join (location testRepo) ''zazie-icon'')
       (dirtyRepo [Exited 0 [] [], Exited 0 ''[master 8e9b80b] blob file version added'' []])
     = (Some (PathError ''open'' (filepath_Join (location testRepo) ''metro-zazie'')
                (Errno ''ENOENT'')),
        dirtyRepo [Exited 0 [] [], Exited 0 ''[master 8e9b80b] blob file version added'' []]) \<and>
   executeBlobManipulationJob scripted testRepo
       (copyBlobContents (filepath_Join (location testRepo) ''metro-zazie'')
          (filepath_Join (location testRepo) ''zazie-icon''))
       \<lparr>logContext = ''copy blob file'', commitMessage = ''blob file version added''\<rparr> ''ux''
       (dirtyRepo [Exited 0 [] [], Exited 0 ''[master 8e9b80b] blob file version added'' []])
     = (None,
        \<lparr>files = [filepath_Join (location testRepo) ''leftover.tmp'' \<mapsto> ''x''], store = [],
         invoked = [git testRepo [''add'', ''-A''],
                    git testRepo [''commit'', ''-m'', ''blob file version added by ux'',
                                  ''--author=ux <ux>'']],
         procenv = Map.empty\<rparr>)"
proof -
  let ?w = "dirtyRepo [Exited 0 [] [], Exited 0 ''[master 8e9b80b] blob file version added'' []]"
  let ?src = "filepath_Join (location testRepo) ''metro-zazie''"
  let ?dst = "filepath_Join (location testRepo) ''zazie-icon''"
  let ?fs = "[filepath_Join (location testRepo) ''leftover.tmp'' \<mapsto> ''x'']"
  let ?w2 = "\<lparr>files = ?fs,
              store = [Exited 0 ''[master 8e9b80b] blob file version added'' []],
              invoked = [git testRepo [''add'', ''-A'']], procenv = Map.empty\<rparr>"
  let ?w3 = "\<lparr>files = ?fs, store = [],
              invoked = [git testRepo [''add'', ''-A''],
                         git testRepo [''commit'', ''-m'', ''blob file version added by ux'',
                                       ''--author=ux <ux>'']],
              procenv = Map.empty\<rparr>"
  have a: "copyBlobContents ?src ?dst ?w = (Some (PathError ''open'' ?src (Errno ''ENOENT'')), ?w)"
    by (simp add: copyBlobContents_def dirtyRepo_def filepath_Join_def testRepo_def)
  have b: "ExecuteGitCommand scripted testRepo [''add'', ''-A''] ?w = (([], None), ?w2)"
    by (simp add: ExecuteGitCommand_def ExecuteCommand_def scripted_def dirtyRepo_def git_def)
  have c: "ExecuteGitCommand scripted testRepo
             (commit (procenv ?w2)
                (commitMessage \<lparr>logContext = ''copy blob file'',
                                commitMessage = ''blob file version added''\<rparr>) ''ux'') ?w2
           = ((''[master 8e9b80b] blob file version added'', None), ?w3)"
    by (simp add: ExecuteGitCommand_def ExecuteCommand_def scripted_def git_def commit_def
        getCommitCommand_def os_Getenv_def)
  from executeBlobManipulationJob_blob_failure_unreported
         [where blobOperation = "copyBlobContents ?src ?dst" and w = ?w, OF a b c] a
  show ?thesis
    by simp
qed

text \<open>The same run through the public operation: \<open>CopyBlob\<close> returns \<open>nil\<close>.\<close>

lemma Git_CopyBlob_failed_copy_run:
  "fst (Git_CopyBlob scripted testRepo ''metro-zazie'' ''zazie-icon'' ''ux''
          (dirtyRepo [Exited 0 [] [], Exited 0 ''[master 8e9b80b] blob file version added'' []]))
   = None"
  by (simp add: Git_CopyBlob_def Enqueue_def executeBlobManipulationJob_def copyBlobContents_def
      pathToFile_def dirtyRepo_def filepath_Join_def testRepo_def ExecuteGitCommand_def
      ExecuteCommand_def scripted_def)

text \<open>
  \<open>deleteBlob\<close> on a key without a blob file: the error wraps the \<open>*PathError\<close> of
  \<open>os.Remove\<close>, which \<open>errors.Is\<close> matches with \<open>os.ErrNotExist\<close>; the comparison by \<open>==\<close>
  does not, so \<open>ErrBlobNotFound\<close> is not what is wrapped.
\<close>

lemma deleteBlob_missing_blob:
  assumes "pathToFile repo k = Inr p" and "files w p = None"
  shows "deleteBlob repo k w =
           (Some (Wrapf (''failed to remove blob '' @ k @ '': '')
                    (PathError ''remove'' p (Errno ''ENOENT'')) []), w)"
    and "errors_Is (Wrapf (''failed to remove blob '' @ k @ '': '')
                      (PathError ''remove'' p (Errno ''ENOENT'')) []) ErrNotExist"
    and "\<not> errors_Is (Wrapf (''failed to remove blob '' @ k @ '': '')
                        (PathError ''remove'' p (Errno ''ENOENT'')) []) ErrBlobNotFound"
  using assms by (simp_all add: deleteBlob_def os_Remove_def)

lemma Git_DeleteBlob_error:
  "fst (Git_DeleteBlob exe repo k modifiedBy w) =
     map_option (\<lambda>err. Wrapf (''failed to remove blob '' @ k @ '' from git repository: '') err [])
       (fst (executeBlobManipulationJob exe repo (\<lambda>w. deleteBlob repo k w)
          \<lparr>logContext = ''delete blob '' @ k, commitMessage = ''blob deleted''\<rparr> modifiedBy w))"
  by (simp add: Git_DeleteBlob_def Enqueue_def Let_def split: prod.splits option.splits)

lemma Git_DeleteBlob_world:
  "snd (Git_DeleteBlob exe repo k modifiedBy w) =
     snd (executeBlobManipulationJob exe repo (\<lambda>w. deleteBlob repo k w)
          \<lparr>logContext = ''delete blob '' @ k, commitMessage = ''blob deleted''\<rparr> modifiedBy w)"
  by (simp add: Git_DeleteBlob_def Enqueue_def Let_def split: prod.splits option.splits)

lemma Git_DeleteBlob_error_cases:
  assumes "fst (Git_DeleteBlob exe repo k modifiedBy w) = Some err"
  shows "\<exists>pre1 pre2 e post2. err = Wrapf pre1 (Wrapf pre2 e post2) [] \<and>
           ((\<exists>m. e = ExecError m) \<or> (\<exists>n. e = ExitError n))"
proof -
  from assms obtain err' where
    e: "fst (executeBlobManipulationJob exe repo (\<lambda>w. deleteBlob repo k w)
          \<lparr>logContext = ''delete blob '' @ k, commitMessage = ''blob deleted''\<rparr> modifiedBy w)
        = Some err'"
    and w: "err = Wrapf (''failed to remove blob '' @ k @ '' from git repository: '') err' []"
    by (auto simp: Git_DeleteBlob_error)
  from job_error_cases[OF e] w show ?thesis by blast
qed

text \<open>
  Claim C2 says that local \<open>DeleteBlob\<close> on a key with no blob file returns an error that
  wraps \<open>ErrBlobNotFound\<close>.  For every key, every state of the machine and every behaviour
  of \<open>git\<close>, whether the blob file exists or not, the error that local \<open>DeleteBlob\<close>
  returns does not wrap \<open>ErrBlobNotFound\<close>.
\<close>

theorem Git_DeleteBlob_never_NotFound:
  "\<not> isNotFound (fst (Git_DeleteBlob exe repo k modifiedBy w))"
proof (cases "fst (Git_DeleteBlob exe repo k modifiedBy w)")
  case None
  then show ?thesis by (simp add: isNotFound_def)
next
  case (Some err)
  from Git_DeleteBlob_error_cases[OF Some] Some show ?thesis
    by (auto simp: isNotFound_def)
qed

text \<open>
  Deleting a blob that was never added, in a clean working tree: \<open>git commit\<close> finds nothing
  to commit, and that failure is the error returned.
\<close>

lemma Git_DeleteBlob_missing_blob_run:
  "fst (Git_DeleteBlob scripted testRepo ''metro-zazie'' ''ux''
          (emptyRepo [Exited 0 [] [],
                      Exited 1 ''On branch master nothing to commit, working tree clean'' []]))
   = Some (Wrapf ''failed to remove blob metro-zazie from git repository: ''
             (Wrapf ''failed to commit: '' (ExitError 1)
                '' -> On branch master nothing to commit, working tree clean'') [])"
  by (simp add: Git_DeleteBlob_error executeBlobManipulationJob_def deleteBlob_def pathToFile_def
      os_Remove_def emptyRepo_def ExecuteGitCommand_def ExecuteCommand_def scripted_def
      Errorf_w_def)

subsection \<open>Keys with a path separator\<close>

lemma pathToFile_slash:
  "strings_Contains k ''/'' \<Longrightarrow> pathToFile repo k = Inl keyValidationError"
  by (simp add: pathToFile_def keyValidationError_def)

text \<open>
  \<open>AddBlob\<close>, \<open>GetBlob\<close>, \<open>GetVersionFor\<close> and \<open>CopyBlob\<close> map the key to a path before
  anything else: for a key with a \<open>/\<close> they return the validation error and leave the
  machine as it was (no file touched, no command run).
\<close>

lemma Git_AddBlob_slash_key:
  "strings_Contains (Key blob) ''/'' \<Longrightarrow>
     Git_AddBlob exe repo blob w = (Some keyValidationError, w)"
  by (simp add: Git_AddBlob_def pathToFile_slash Let_def)

lemma Git_GetBlob_slash_key:
  "strings_Contains k ''/'' \<Longrightarrow> Git_GetBlob repo k w = (Inl keyValidationError, w)"
  by (simp add: Git_GetBlob_def pathToFile_slash)

lemma Git_GetVersionFor_slash_key:
  "strings_Contains k ''/'' \<Longrightarrow>
     Git_GetVersionFor exe repo k w = (([], Some keyValidationError), w)"
  by (simp add: Git_GetVersionFor_def pathToFile_slash)

lemma Git_CopyBlob_slash_key:
  "strings_Contains sourceKey ''/'' \<or> strings_Contains destinationKey ''/'' \<Longrightarrow>
     Git_CopyBlob exe repo sourceKey destinationKey modifiedBy w = (Some keyValidationError, w)"
  by (auto simp: Git_CopyBlob_def pathToFile_slash Let_def split: sum.splits)
    (simp add: pathToFile_def keyValidationError_def split: if_splits)

lemma deleteBlob_slash_key:
  "strings_Contains k ''/'' \<Longrightarrow> deleteBlob repo k w = (Some keyValidationError, w)"
  by (simp add: deleteBlob_def pathToFile_slash)

text \<open>
  Claim C5 says that every local operation that maps a key to a path, \<open>DeleteBlob\<close>
  included, returns the validation error for a key with a \<open>/\<close> before any subprocess is
  run.  For such a key local \<open>DeleteBlob\<close> runs \<open>git add -A\<close> in the repository first of
  all, and what it returns is never the validation error, nor an error that wraps it.
\<close>

theorem Git_DeleteBlob_slash_key_runs_git:
  assumes "strings_Contains k ''/''"
  shows "(\<exists>rest. invoked (snd (Git_DeleteBlob exe repo k modifiedBy w)) =
                  invoked w @ git repo [''add'', ''-A''] # rest) \<and>
         fst (Git_DeleteBlob exe repo k modifiedBy w) \<noteq> Some keyValidationError \<and>
         (\<forall>err. fst (Git_DeleteBlob exe repo k modifiedBy w) = Some err \<longrightarrow>
                \<not> errors_Is err keyValidationError)"
proof -
  from job_invoked[of exe repo "\<lambda>w. deleteBlob repo k w" _ modifiedBy w]
  have "\<exists>rest. invoked (snd (Git_DeleteBlob exe repo k modifiedBy w)) =
                 invoked w @ git repo [''add'', ''-A''] # rest"
    by (simp add: Git_DeleteBlob_world deleteBlob_slash_key[OF assms])
  moreover have "\<not> errors_Is err keyValidationError"
    if "fst (Git_DeleteBlob exe repo k modifiedBy w) = Some err" for err
    using Git_DeleteBlob_error_cases[OF that] by (auto simp: keyValidationError_def)
  moreover from this have "fst (Git_DeleteBlob exe repo k modifiedBy w) \<noteq> Some keyValidationError"
    by (auto simp: keyValidationError_def)
  ultimately show ?thesis by blast
qed

text \<open>
  \<open>DeleteBlob\<close> on the key \<open>icons/metro-zazie\<close> in a clean working tree: the staging
  succeeds, the commit finds nothing to commit, and the reset and the clean of the
  rollback follow.  Four commands are run, and the error returned is that of the commit.
\<close>

theorem Git_DeleteBlob_slash_key_witness:
  "strings_Contains ''icons/metro-zazie'' ''/'' \<and>
   Git_DeleteBlob scripted testRepo ''icons/metro-zazie'' ''ux''
       (emptyRepo [Exited 0 [] [],
                   Exited 1 ''On branch master nothing to commit, working tree clean'' [],
                   Exited 0 ''HEAD is now at 8e9b80b blob file version added'' [],
                   Exited 0 [] []])
     = (Some (Wrapf ''failed to remove blob icons/metro-zazie from git repository: ''
                (Wrapf ''failed to commit: '' (ExitError 1)
                   '' -> On branch master nothing to commit, working tree clean'') []),
        \<lparr>files = Map.empty, store = [],
         invoked = [git testRepo [''add'', ''-A''],
                    git testRepo [''commit'', ''-m'', ''blob deleted by ux'', ''--author=ux <ux>''],
                    git testRepo [''reset'', ''--hard'', ''HEAD''],
                    git testRepo [''clean'', ''-qfdx'']],
         procenv = Map.empty\<rparr>) \<and>
   (\<exists>rest. invoked (snd (Git_DeleteBlob scripted testRepo ''icons/metro-zazie'' ''ux''
                (emptyRepo [Exited 0 [] [],
                   Exited 1 ''On branch master nothing to commit, working tree clean'' [],
                   Exited 0 ''HEAD is now at 8e9b80b blob file version added'' [],
                   Exited 0 [] []]))) =
           invoked (emptyRepo [Exited 0 [] [],
                   Exited 1 ''On branch master nothing to commit, working tree clean'' [],
                   Exited 0 ''HEAD is now at 8e9b80b blob file version added'' [],
                   Exited 0 [] []]) @
           git testRepo [''add'', ''-A''] # rest)"
proof -
  let ?w = "emptyRepo [Exited 0 [] [],
                   Exited 1 ''On branch master nothing to commit, working tree clean'' [],
                   Exited 0 ''HEAD is now at 8e9b80b blob file version added'' [],
                   Exited 0 [] []]"
  have k: "strings_Contains ''icons/metro-zazie'' ''/''" by simp
  have run: "Git_DeleteBlob scripted testRepo ''icons/metro-zazie'' ''ux'' ?w
     = (Some (Wrapf ''failed to remove blob icons/metro-zazie from git repository: ''
                (Wrapf ''failed to commit: '' (ExitError 1)
                   '' -> On branch master nothing to commit, working tree clean'') []),
        \<lparr>files = Map.empty, store = [],
         invoked = [git testRepo [''add'', ''-A''],
                    git testRepo [''commit'', ''-m'', ''blob deleted by ux'', ''--author=ux <ux>''],
                    git testRepo [''reset'', ''--hard'', ''HEAD''],
                    git testRepo [''clean'', ''-qfdx'']],
         procenv = Map.empty\<rparr>)"
    by (simp add: Git_DeleteBlob_def Enqueue_def executeBlobManipulationJob_def deleteBlob_def
        pathToFile_def emptyRepo_def ExecuteGitCommand_def ExecuteCommand_def scripted_def
        git_def commit_def getCommitCommand_def os_Getenv_def Errorf_w_def rollback_def
        rollbackCommands_def)
  from Git_DeleteBlob_slash_key_runs_git[OF k, of scripted testRepo "''ux''" ?w] k run
  show ?thesis by blast
qed

subsection \<open>The two parsers\<close>

lemma readTimestamp_authored:
  "readTimestamp ''2022-10-09T13:42:12+02:00'' =
     Inr \<lparr>year = 2022, month = 10, day = 9, hour = 13, minute = 42, second = 12,
          offsetMinutes = 120\<rparr>"
  by (simp add: readTimestamp_def number_def isDigit_def digitVal_def readOffset_def daysIn_def)

lemma readTimestamp_committed:
  "readTimestamp ''2022-10-31T15:30:17+01:00'' =
     Inr \<lparr>year = 2022, month = 10, day = 31, hour = 15, minute = 30, second = 17,
          offsetMinutes = 60\<rparr>"
  by (simp add: readTimestamp_def number_def isDigit_def digitVal_def readOffset_def daysIn_def)

text \<open>The remote parser never fills \<open>Message\<close>, whatever the response holds.\<close>

lemma GitlabCommitResponseToMetadata_no_message:
  "Message (fst (GitlabCommitResponseToMetadata tp response)) = []"
  by (simp add: GitlabCommitResponseToMetadata_def zeroMetadata_def split: sum.splits)

text \<open>
  Claim C4 says that for one commit the local and the remote parser give equal
  \<open>CommitMetadata\<close> values, \<open>Message\<close> included.  For the commit of the repository's parser
  test the two results agree on \<open>Author\<close>, \<open>AuthorDate\<close>, \<open>Commit\<close> and \<open>CommitDate\<close>, but
  the local parser gives the message of the commit and the remote parser the empty
  string, so the two values differ.
\<close>

theorem parsers_differ_on_Message:
  "ParseLocalCommitMetadata plainTime testLog =
     (testMetadata\<lparr>Message := ''[DEV] distributed git access''\<rparr>, None) \<and>
   GitlabCommitResponseToMetadata plainTime testResponse = (testMetadata, None) \<and>
   Message testMetadata = [] \<and>
   ParseLocalCommitMetadata plainTime testLog \<noteq> GitlabCommitResponseToMetadata plainTime testResponse"
proof -
  have l: "ParseLocalCommitMetadata plainTime testLog =
     (testMetadata\<lparr>Message := ''[DEV] distributed git access''\<rparr>, None)"
    by (simp add: ParseLocalCommitMetadata_def testLog_def plainTime_def testMetadata_def
        zeroMetadata_def matchField_def matchDate_def matchSpacesThenAny_def isRegexpSpace_def
        isDigit_def parseTimeFromLocalCommitOutput_def MatchString_def readTimestamp_authored
        readTimestamp_committed strings_Trim_def Let_def)
  have r: "GitlabCommitResponseToMetadata plainTime testResponse = (testMetadata, None)"
    by (simp add: GitlabCommitResponseToMetadata_def plainTime_def testResponse_def
        testMetadata_def readTimestamp_authored readTimestamp_committed)
  have m: "Message testMetadata = []" by (simp add: testMetadata_def)
  have "testMetadata\<lparr>Message := ''[DEV] distributed git access''\<rparr> \<noteq> testMetadata"
    by (simp add: testMetadata_def)
  with l r m show ?thesis by simp
qed

subsection \<open>Date lines of the local log\<close>

lemma HasPrefix_append: "strings_HasPrefix (p @ s) p"
  by (induction p) auto

lemma matchSpacesThenAny_trim:
  assumes "ws \<noteq> []" "list_all isRegexpSpace ws" "pre \<noteq> []" "\<not> isRegexpSpace (hd pre)"
    "CHR 0x0A \<notin> set pre"
  shows "matchSpacesThenAny (ws @ pre) = Some pre"
proof -
  from assms(3,4) have tw: "takeWhile isRegexpSpace pre = []" "dropWhile isRegexpSpace pre = pre"
    by (cases pre; simp)+
  from assms(2) have "takeWhile isRegexpSpace (ws @ pre) = ws @ takeWhile isRegexpSpace pre"
    "dropWhile isRegexpSpace (ws @ pre) = dropWhile isRegexpSpace pre"
    by (simp_all add: list_all_iff)
  with tw assms show ?thesis
    by (simp add: matchSpacesThenAny_def Let_def)
qed

lemma matchDate_line:
  assumes "ws \<noteq> []" "list_all isRegexpSpace ws" "pre \<noteq> []" "\<not> isRegexpSpace (hd pre)"
    "CHR 0x0A \<notin> set pre" "length hh = 2" "length mm = 2" "list_all isDigit (hh @ mm)"
  shows "matchDate name (name @ ws @ pre @ hh @ mm) =
           Some [name @ ws @ pre @ hh @ mm, pre, hh, mm]"
proof -
  let ?rest = "ws @ pre @ hh @ mm"
  have n: "length ?rest - 4 = length (ws @ pre)" using assms(6,7) by simp
  have d: "drop (length ?rest - 4) ?rest = hh @ mm" "take (length ?rest - 4) ?rest = ws @ pre"
    unfolding n by simp_all
  have d2: "drop (length ?rest - 2) ?rest = mm"
  proof -
    have "length ?rest - 2 = length (ws @ pre @ hh)" using assms(6,7) by simp
    then show ?thesis by (metis append.assoc append_eq_conv_conj)
  qed
  have "\<not> length ?rest < 4" using assms(6,7) by simp
  with d d2 assms matchSpacesThenAny_trim[OF assms(1-5)] show ?thesis
    by (simp add: matchDate_def HasPrefix_append Let_def del: append_assoc length_append)
qed

lemma FindStringSubmatch_date_line:
  assumes "isDateRegexp rexp" "ws \<noteq> []" "list_all isRegexpSpace ws" "pre \<noteq> []"
    "\<not> isRegexpSpace (hd pre)" "CHR 0x0A \<notin> set pre" "length hh = 2" "length mm = 2"
    "list_all isDigit (hh @ mm)"
  shows "FindStringSubmatch rexp (dateLabel rexp @ ws @ pre @ hh @ mm) =
           Some [dateLabel rexp @ ws @ pre @ hh @ mm, pre, hh, mm]"
proof (cases "rexp = commitDateRegexp")
  case True
  then show ?thesis
    using matchDate_line[OF assms(2-9), of "''CommitDate:''"] by (simp add: dateLabel_def)
next
  case False
  with assms(1) have "rexp = authorDateRegexp" by (simp add: isDateRegexp_def)
  then show ?thesis
    using matchDate_line[OF assms(2-9), of "''AuthorDate:''"] by (simp add: dateLabel_def)
qed

lemma parseTime_date_line:
  assumes "isDateRegexp rexp" "ws \<noteq> []" "list_all isRegexpSpace ws" "pre \<noteq> []"
    "\<not> isRegexpSpace (hd pre)" "CHR 0x0A \<notin> set pre" "length hh = 2" "length mm = 2"
    "list_all isDigit (hh @ mm)"
  shows "parseTimeFromLocalCommitOutput tp rexp (dateLabel rexp @ ws @ pre @ hh @ mm) =
           (case Parse_RFC3339 tp (pre @ hh @ '':'' @ mm) of
              Inr t \<Rightarrow> (t, True, None)
            | Inl err \<Rightarrow> (zeroTime tp, False, Some (timeParseError (pre @ hh @ '':'' @ mm) err)))"
  using FindStringSubmatch_date_line[OF assms]
  by (simp add: parseTimeFromLocalCommitOutput_def MatchString_def timeParseError_def
      split: sum.splits)

lemma dateLabel_not_field:
  assumes "isDateRegexp rexp"
  shows "FindStringSubmatch authorRegexp (dateLabel rexp @ s) = None"
    and "FindStringSubmatch commitRegexp (dateLabel rexp @ s) = None"
  using assms by (auto simp: isDateRegexp_def dateLabel_def matchField_def)

lemma commitDate_not_authorDate:
  "parseTimeFromLocalCommitOutput tp authorDateRegexp (dateLabel commitDateRegexp @ s) =
     (zeroTime tp, False, None)"
  by (simp add: parseTimeFromLocalCommitOutput_def MatchString_def matchDate_def dateLabel_def)

lemma parseLines_failing_date_line:
  assumes "isDateRegexp rexp" "ws \<noteq> []" "list_all isRegexpSpace ws" "pre \<noteq> []"
    "\<not> isRegexpSpace (hd pre)" "CHR 0x0A \<notin> set pre" "length hh = 2" "length mm = 2"
    "list_all isDigit (hh @ mm)"
    and fail: "Parse_RFC3339 tp (pre @ hh @ '':'' @ mm) = Inl err"
    and mem: "dateLabel rexp @ ws @ pre @ hh @ mm \<in> set lines"
  shows "snd (snd (parseLines tp lines md buf)) \<noteq> None"
  using mem
proof (induction lines arbitrary: md buf)
  case Nil
  then show ?case by simp
next
  case (Cons l ls)
  let ?line = "dateLabel rexp @ ws @ pre @ hh @ mm"
  show ?case
  proof (cases "l = ?line")
    case True
    have pt: "parseTimeFromLocalCommitOutput tp rexp ?line =
        (zeroTime tp, False, Some (timeParseError (pre @ hh @ '':'' @ mm) err))"
      using parseTime_date_line[OF assms(1-9), of tp] fail by simp
    show ?thesis
    proof (cases "rexp = commitDateRegexp")
      case c: True
      with pt True show ?thesis
        using dateLabel_not_field[OF assms(1), of "ws @ pre @ hh @ mm"]
          commitDate_not_authorDate[of tp "ws @ pre @ hh @ mm"]
        by simp
    next
      case False
      with assms(1) have "rexp = authorDateRegexp" by (simp add: isDateRegexp_def)
      with pt True show ?thesis
        using dateLabel_not_field[OF assms(1), of "ws @ pre @ hh @ mm"]
        by simp
    qed
  next
    case False
    with Cons.prems have "?line \<in> set ls" by simp
    from Cons.IH[OF this] show ?thesis
      by (simp split: option.splits prod.splits)
  qed
qed

lemma ParseLocal_failing_date_line:
  assumes "isDateRegexp rexp" "ws \<noteq> []" "list_all isRegexpSpace ws" "pre \<noteq> []"
    "\<not> isRegexpSpace (hd pre)" "CHR 0x0A \<notin> set pre" "length hh = 2" "length mm = 2"
    "list_all isDigit (hh @ mm)"
    and fail: "Parse_RFC3339 tp (pre @ hh @ '':'' @ mm) = Inl err"
    and mem: "dateLabel rexp @ ws @ pre @ hh @ mm \<in> set (splitOn (CHR 0x0A) metadata)"
  shows "snd (ParseLocalCommitMetadata tp metadata) \<noteq> None"
  using parseLines_failing_date_line[OF assms(1-9) fail mem, of "zeroMetadata tp" "[]"]
  by (auto simp add: ParseLocalCommitMetadata_def Let_def split: prod.splits option.splits)

lemma parseLines_append:
  "parseLines tp (xs @ ys) md buf =
     (case parseLines tp xs md buf of
        (md', buf', None) \<Rightarrow> parseLines tp ys md' buf'
      | (md', buf', Some e) \<Rightarrow> (md', buf', Some e))"
proof (induction xs arbitrary: md buf)
  case Nil
  then show ?case by simp
next
  case (Cons l ls)
  show ?case
    by (simp add: Cons.IH split: option.splits prod.splits)
qed

lemma parseLines_no_error:
  assumes "\<forall>l \<in> set ls. snd (snd (parseTimeFromLocalCommitOutput tp authorDateRegexp l)) = None
                      \<and> snd (snd (parseTimeFromLocalCommitOutput tp commitDateRegexp l)) = None"
  shows "snd (snd (parseLines tp ls md buf)) = None"
  using assms
proof (induction ls arbitrary: md buf)
  case Nil
  then show ?case by simp
next
  case (Cons l ls)
  obtain t1 f1 e1 where a: "parseTimeFromLocalCommitOutput tp authorDateRegexp l = (t1, f1, e1)"
    by (cases "parseTimeFromLocalCommitOutput tp authorDateRegexp l") auto
  obtain t2 f2 e2 where c: "parseTimeFromLocalCommitOutput tp commitDateRegexp l = (t2, f2, e2)"
    by (cases "parseTimeFromLocalCommitOutput tp commitDateRegexp l") auto
  from Cons.prems a c have e: "e1 = None" "e2 = None" by simp_all
  from Cons.prems have "\<forall>l \<in> set ls.
      snd (snd (parseTimeFromLocalCommitOutput tp authorDateRegexp l)) = None
      \<and> snd (snd (parseTimeFromLocalCommitOutput tp commitDateRegexp l)) = None"
    by simp
  note IH = Cons.IH[OF this]
  show ?case
    by (simp add: a c e IH split: option.splits)
qed

lemma parseTime_found:
  "parseTimeFromLocalCommitOutput tp rexp l = (tim, True, e) \<Longrightarrow> MatchString rexp l"
  by (simp add: parseTimeFromLocalCommitOutput_def split: if_splits)

lemma parseLines_keeps_dateField:
  assumes "isDateRegexp rexp" "\<forall>l \<in> set ls. \<not> MatchString rexp l"
  shows "dateField rexp (fst (parseLines tp ls md buf)) = dateField rexp md"
  using assms(2)
proof (induction ls arbitrary: md buf)
  case Nil
  then show ?case by simp
next
  case (Cons l ls)
  from Cons.prems have nm: "\<not> MatchString rexp l" and rest: "\<forall>l \<in> set ls. \<not> MatchString rexp l"
    by simp_all
  note IH = Cons.IH[OF rest]
  obtain t1 f1 e1 where a: "parseTimeFromLocalCommitOutput tp authorDateRegexp l = (t1, f1, e1)"
    by (cases "parseTimeFromLocalCommitOutput tp authorDateRegexp l") auto
  obtain t2 f2 e2 where c: "parseTimeFromLocalCommitOutput tp commitDateRegexp l = (t2, f2, e2)"
    by (cases "parseTimeFromLocalCommitOutput tp commitDateRegexp l") auto
  show ?case
  proof (cases "rexp = commitDateRegexp")
    case True
    with nm c have f: "\<not> f2" by (auto dest: parseTime_found)
    from IH True have IH': "\<And>md buf. CommitDate (fst (parseLines tp ls md buf)) = CommitDate md"
      by (simp add: dateField_def)
    from True f show ?thesis
      by (simp add: a c IH' dateField_def split: option.splits)
  next
    case False
    with assms(1) have r: "rexp = authorDateRegexp" by (simp add: isDateRegexp_def)
    with nm a have f: "\<not> f1" by (auto dest: parseTime_found)
    from IH r have IH': "\<And>md buf. AuthorDate (fst (parseLines tp ls md buf)) = AuthorDate md"
      by (simp add: dateField_def)
    from r f show ?thesis
      by (simp add: a c IH' dateField_def split: option.splits)
  qed
qed

lemma parseLines_date_line:
  assumes "isDateRegexp rexp" "ws \<noteq> []" "list_all isRegexpSpace ws" "pre \<noteq> []"
    "\<not> isRegexpSpace (hd pre)" "CHR 0x0A \<notin> set pre" "length hh = 2" "length mm = 2"
    "list_all isDigit (hh @ mm)"
  shows "parseLines tp ((dateLabel rexp @ ws @ pre @ hh @ mm) # ls) md buf =
           (case Parse_RFC3339 tp (pre @ hh @ '':'' @ mm) of
              Inr t \<Rightarrow> parseLines tp ls
                         (if rexp = commitDateRegexp then md\<lparr>CommitDate := t\<rparr>
                          else md\<lparr>AuthorDate := t\<rparr>) buf
            | Inl err \<Rightarrow> (md, buf, Some (timeParseError (pre @ hh @ '':'' @ mm) err)))"
proof (cases "rexp = commitDateRegexp")
  case True
  with parseTime_date_line[OF assms, of tp] show ?thesis
    using dateLabel_not_field[OF assms(1), of "ws @ pre @ hh @ mm"]
      commitDate_not_authorDate[of tp "ws @ pre @ hh @ mm"]
    by (simp split: sum.splits)
next
  case False
  with assms(1) have "rexp = authorDateRegexp" by (simp add: isDateRegexp_def)
  with parseTime_date_line[OF assms, of tp] show ?thesis
    using dateLabel_not_field[OF assms(1), of "ws @ pre @ hh @ mm"]
    by (simp split: sum.splits)
qed

lemma ParseLocal_date_line:
  assumes "isDateRegexp rexp" "ws \<noteq> []" "list_all isRegexpSpace ws" "pre \<noteq> []"
    "\<not> isRegexpSpace (hd pre)" "CHR 0x0A \<notin> set pre" "length hh = 2" "length mm = 2"
    "list_all isDigit (hh @ mm)"
    and split: "splitOn (CHR 0x0A) metadata = before @ [dateLabel rexp @ ws @ pre @ hh @ mm] @ after"
    and ok: "Parse_RFC3339 tp (pre @ hh @ '':'' @ mm) = Inr t"
    and others: "\<forall>l \<in> set (before @ after).
                   snd (snd (parseTimeFromLocalCommitOutput tp authorDateRegexp l)) = None
                 \<and> snd (snd (parseTimeFromLocalCommitOutput tp commitDateRegexp l)) = None"
    and last: "\<forall>l \<in> set after. \<not> MatchString rexp l"
  shows "snd (ParseLocalCommitMetadata tp metadata) = None
         \<and> dateField rexp (fst (ParseLocalCommitMetadata tp metadata)) = t"
proof -
  let ?line = "dateLabel rexp @ ws @ pre @ hh @ mm"
  let ?md0 = "zeroMetadata tp"
  obtain md1 buf1 e1 where b: "parseLines tp before ?md0 [] = (md1, buf1, e1)"
    by (cases "parseLines tp before ?md0 []") auto
  from others have ob: "\<forall>l \<in> set before.
                   snd (snd (parseTimeFromLocalCommitOutput tp authorDateRegexp l)) = None
                 \<and> snd (snd (parseTimeFromLocalCommitOutput tp commitDateRegexp l)) = None"
    and oa: "\<forall>l \<in> set after.
                   snd (snd (parseTimeFromLocalCommitOutput tp authorDateRegexp l)) = None
                 \<and> snd (snd (parseTimeFromLocalCommitOutput tp commitDateRegexp l)) = None"
    by simp_all
  from parseLines_no_error[OF ob, of ?md0 "[]"] b have e1: "e1 = None" by simp
  let ?md2 = "if rexp = commitDateRegexp then md1\<lparr>CommitDate := t\<rparr> else md1\<lparr>AuthorDate := t\<rparr>"
  have whole: "parseLines tp (before @ [?line] @ after) ?md0 [] = parseLines tp after ?md2 buf1"
    using parseLines_date_line[OF assms(1-9), of tp after md1 buf1] ok b e1
    by (simp add: parseLines_append del: parseLines.simps)
  obtain md3 buf3 e3 where a: "parseLines tp after ?md2 buf1 = (md3, buf3, e3)"
    by (cases "parseLines tp after ?md2 buf1") auto
  from parseLines_no_error[OF oa, of ?md2 buf1] a have e3: "e3 = None" by simp
  from parseLines_keeps_dateField[OF assms(1) last, of tp ?md2 buf1] a
  have d: "dateField rexp md3 = t" by (simp add: dateField_def split: if_splits)
  from whole a e3 split have "ParseLocalCommitMetadata tp metadata =
      (md3\<lparr>Message := strings_Join buf3 [CHR 0x0A]\<rparr>, None)"
    by (simp add: ParseLocalCommitMetadata_def del: parseLines.simps)
  with d show ?thesis
    by (auto simp add: dateField_def split: if_splits)
qed

lemma ParseLocal_first_failing_date_line:
  assumes "isDateRegexp rexp" "ws \<noteq> []" "list_all isRegexpSpace ws" "pre \<noteq> []"
    "\<not> isRegexpSpace (hd pre)" "CHR 0x0A \<notin> set pre" "length hh = 2" "length mm = 2"
    "list_all isDigit (hh @ mm)"
    and split: "splitOn (CHR 0x0A) metadata = before @ [dateLabel rexp @ ws @ pre @ hh @ mm] @ after"
    and fail: "Parse_RFC3339 tp (pre @ hh @ '':'' @ mm) = Inl err"
    and others: "\<forall>l \<in> set before.
                   snd (snd (parseTimeFromLocalCommitOutput tp authorDateRegexp l)) = None
                 \<and> snd (snd (parseTimeFromLocalCommitOutput tp commitDateRegexp l)) = None"
  shows "snd (ParseLocalCommitMetadata tp metadata) = Some (timeParseError (pre @ hh @ '':'' @ mm) err)"
proof -
  let ?line = "dateLabel rexp @ ws @ pre @ hh @ mm"
  let ?md0 = "zeroMetadata tp"
  obtain md1 buf1 e1 where b: "parseLines tp before ?md0 [] = (md1, buf1, e1)"
    by (cases "parseLines tp before ?md0 []") auto
  from parseLines_no_error[OF others, of ?md0 "[]"] b have e1: "e1 = None" by simp
  have whole: "parseLines tp (before @ [?line] @ after) ?md0 [] =
                 (md1, buf1, Some (timeParseError (pre @ hh @ '':'' @ mm) err))"
    using parseLines_date_line[OF assms(1-9), of tp after md1 buf1] fail b e1
    by (simp add: parseLines_append del: parseLines.simps)
  from whole split show ?thesis
    by (simp add: ParseLocalCommitMetadata_def del: parseLines.simps)
qed


text \<open>
  Claim C6.  Take a line made of the label \<open>AuthorDate:\<close> or \<open>CommitDate:\<close>, white space,
  and a timestamp \<open>pre hh mm\<close> whose last four bytes are digits (\<open>pre\<close> is not empty, does
  not begin with white space and holds no line feed), read with the pattern of that label.
  The local parser reads the line as \<open>time.Parse\<close> reads \<open>pre hh:mm\<close>, the timestamp with
  a colon put between the two last pairs of digits: it gives that time when \<open>time.Parse\<close>
  accepts the text and an error when it does not.

  When \<open>time.Parse\<close> accepts the text, \<open>ParseLocalCommitMetadata\<close> on a log output that
  holds the line returns no error and has that time in \<open>AuthorDate\<close> (for the first label)
  or \<open>CommitDate\<close> (for the second), provided that the date readings of the other lines
  raise no error and that no later line matches the same pattern.

  When \<open>time.Parse\<close> refuses the text, \<open>ParseLocalCommitMetadata\<close> returns an error for every
  log output in which the line occurs; the error is the one of this line, wrapping the
  error of \<open>time.Parse\<close>, when the date readings of the lines before it raise none.
\<close>

theorem date_line_reconstruction:
  assumes "isDateRegexp rexp"
    and "ws \<noteq> []" and "list_all isRegexpSpace ws"
    and "pre \<noteq> []" and "\<not> isRegexpSpace (hd pre)" and "CHR 0x0A \<notin> set pre"
    and "length hh = 2" and "length mm = 2" and "list_all isDigit (hh @ mm)"
  shows "parseTimeFromLocalCommitOutput tp rexp (dateLabel rexp @ ws @ pre @ hh @ mm) =
           (case Parse_RFC3339 tp (pre @ hh @ '':'' @ mm) of
              Inr t \<Rightarrow> (t, True, None)
            | Inl err \<Rightarrow> (zeroTime tp, False, Some (timeParseError (pre @ hh @ '':'' @ mm) err)))
         \<and> (\<forall>metadata before after t.
               splitOn (CHR 0x0A) metadata = before @ [dateLabel rexp @ ws @ pre @ hh @ mm] @ after \<and>
               Parse_RFC3339 tp (pre @ hh @ '':'' @ mm) = Inr t \<and>
               (\<forall>l \<in> set (before @ after).
                   snd (snd (parseTimeFromLocalCommitOutput tp authorDateRegexp l)) = None
                 \<and> snd (snd (parseTimeFromLocalCommitOutput tp commitDateRegexp l)) = None) \<and>
               (\<forall>l \<in> set after. \<not> MatchString rexp l)
               \<longrightarrow> snd (ParseLocalCommitMetadata tp metadata) = None
                   \<and> dateField rexp (fst (ParseLocalCommitMetadata tp metadata)) = t)
         \<and> (\<forall>metadata before after err.
               splitOn (CHR 0x0A) metadata = before @ [dateLabel rexp @ ws @ pre @ hh @ mm] @ after \<and>
               Parse_RFC3339 tp (pre @ hh @ '':'' @ mm) = Inl err \<and>
               (\<forall>l \<in> set before.
                   snd (snd (parseTimeFromLocalCommitOutput tp authorDateRegexp l)) = None
                 \<and> snd (snd (parseTimeFromLocalCommitOutput tp commitDateRegexp l)) = None)
               \<longrightarrow> snd (ParseLocalCommitMetadata tp metadata)
                     = Some (timeParseError (pre @ hh @ '':'' @ mm) err))
         \<and> (\<forall>metadata err.
               Parse_RFC3339 tp (pre @ hh @ '':'' @ mm) = Inl err \<and>
               dateLabel rexp @ ws @ pre @ hh @ mm \<in> set (splitOn (CHR 0x0A) metadata)
               \<longrightarrow> snd (ParseLocalCommitMetadata tp metadata) \<noteq> None)"
proof (intro conjI allI impI)
  show "parseTimeFromLocalCommitOutput tp rexp (dateLabel rexp @ ws @ pre @ hh @ mm) =
           (case Parse_RFC3339 tp (pre @ hh @ '':'' @ mm) of
              Inr t \<Rightarrow> (t, True, None)
            | Inl err \<Rightarrow> (zeroTime tp, False, Some (timeParseError (pre @ hh @ '':'' @ mm) err)))"
    by (rule parseTime_date_line[OF assms])
next
  fix metadata before after t
  assume h: "splitOn (CHR 0x0A) metadata = before @ [dateLabel rexp @ ws @ pre @ hh @ mm] @ after \<and>
               Parse_RFC3339 tp (pre @ hh @ '':'' @ mm) = Inr t \<and>
               (\<forall>l \<in> set (before @ after).
                   snd (snd (parseTimeFromLocalCommitOutput tp authorDateRegexp l)) = None
                 \<and> snd (snd (parseTimeFromLocalCommitOutput tp commitDateRegexp l)) = None) \<and>
               (\<forall>l \<in> set after. \<not> MatchString rexp l)"
  note r = ParseLocal_date_line[OF assms h[THEN conjunct1] h[THEN conjunct2, THEN conjunct1]
      h[THEN conjunct2, THEN conjunct2, THEN conjunct1]
      h[THEN conjunct2, THEN conjunct2, THEN conjunct2]]
  from r show "snd (ParseLocalCommitMetadata tp metadata) = None" by simp
  from r show "dateField rexp (fst (ParseLocalCommitMetadata tp metadata)) = t" by simp
next
  fix metadata before after err
  assume h: "splitOn (CHR 0x0A) metadata = before @ [dateLabel rexp @ ws @ pre @ hh @ mm] @ after \<and>
               Parse_RFC3339 tp (pre @ hh @ '':'' @ mm) = Inl err \<and>
               (\<forall>l \<in> set before.
                   snd (snd (parseTimeFromLocalCommitOutput tp authorDateRegexp l)) = None
                 \<and> snd (snd (parseTimeFromLocalCommitOutput tp commitDateRegexp l)) = None)"
  show "snd (ParseLocalCommitMetadata tp metadata)
          = Some (timeParseError (pre @ hh @ '':'' @ mm) err)"
    by (rule ParseLocal_first_failing_date_line[OF assms h[THEN conjunct1]
          h[THEN conjunct2, THEN conjunct1] h[THEN conjunct2, THEN conjunct2]])
next
  fix metadata err
  assume h: "Parse_RFC3339 tp (pre @ hh @ '':'' @ mm) = Inl err \<and>
               dateLabel rexp @ ws @ pre @ hh @ mm \<in> set (splitOn (CHR 0x0A) metadata)"
  show "snd (ParseLocalCommitMetadata tp metadata) \<noteq> None"
    by (rule ParseLocal_failing_date_line[OF assms h[THEN conjunct1] h[THEN conjunct2]])
qed

lemma readTimestamp_month_13:
  "readTimestamp ''2022-13-31T15:30:17+01:00'' =
     Inl (ErrorString ''parsing time 2022-13-31T15:30:17+01:00: cannot parse as RFC3339'')"
  by (simp add: readTimestamp_def number_def isDigit_def digitVal_def readOffset_def daysIn_def)

text \<open>
  In the log output of the repository's parser test the author date with offset \<open>+0200\<close>
  is read as the same time as its form with \<open>+02:00\<close>, and that time is the \<open>AuthorDate\<close>
  of the result; a commit date in month 13 makes \<open>ParseLocalCommitMetadata\<close> fail with the
  error of that line.
\<close>

theorem date_line_reconstruction_witness:
  "parseTimeFromLocalCommitOutput plainTime authorDateRegexp
       ''AuthorDate: 2022-10-09T13:42:12+0200''
     = (\<lparr>year = 2022, month = 10, day = 9, hour = 13, minute = 42, second = 12,
         offsetMinutes = 120\<rparr>, True, None) \<and>
   Parse_RFC3339 plainTime ''2022-10-09T13:42:12+02:00''
     = Inr \<lparr>year = 2022, month = 10, day = 9, hour = 13, minute = 42, second = 12,
            offsetMinutes = 120\<rparr> \<and>
   snd (ParseLocalCommitMetadata plainTime testLog) = None \<and>
   AuthorDate (fst (ParseLocalCommitMetadata plainTime testLog))
     = \<lparr>year = 2022, month = 10, day = 9, hour = 13, minute = 42, second = 12,
        offsetMinutes = 120\<rparr> \<and>
   snd (ParseLocalCommitMetadata plainTime
          (''Author:     ux <ux>'' @ [CHR 0x0A] @ ''CommitDate: 2022-13-31T15:30:17+0100''))
     = Some (timeParseError ''2022-13-31T15:30:17+01:00''
               (ErrorString ''parsing time 2022-13-31T15:30:17+01:00: cannot parse as RFC3339'')) \<and>
   snd (ParseLocalCommitMetadata plainTime
          (''AuthorDate: never'' @ [CHR 0x0A] @ ''CommitDate: 2022-13-31T15:30:17+0100'' @
           [CHR 0x0A] @ ''    late''))
     \<noteq> None"
proof -
  have a: "isDateRegexp authorDateRegexp" "isDateRegexp commitDateRegexp"
    by (simp_all add: isDateRegexp_def)
  have ws: "'' '' \<noteq> []" "list_all isRegexpSpace '' ''"
    by (simp_all add: isRegexpSpace_def)
  have p1: "''2022-10-09T13:42:12+'' \<noteq> []" "\<not> isRegexpSpace (hd ''2022-10-09T13:42:12+'')"
    "CHR 0x0A \<notin> set ''2022-10-09T13:42:12+''"
    by (simp_all add: isRegexpSpace_def)
  have p2: "''2022-13-31T15:30:17+'' \<noteq> []" "\<not> isRegexpSpace (hd ''2022-13-31T15:30:17+'')"
    "CHR 0x0A \<notin> set ''2022-13-31T15:30:17+''"
    by (simp_all add: isRegexpSpace_def)
  have d1: "length ''02'' = 2" "length ''00'' = 2" "list_all isDigit (''02'' @ ''00'')"
    by (simp_all add: isDigit_def)
  have d2: "length ''01'' = 2" "length ''00'' = 2" "list_all isDigit (''01'' @ ''00'')"
    by (simp_all add: isDigit_def)
  have ok: "Parse_RFC3339 plainTime ''2022-10-09T13:42:12+02:00''
     = Inr \<lparr>year = 2022, month = 10, day = 9, hour = 13, minute = 42, second = 12,
            offsetMinutes = 120\<rparr>"
    by (simp add: plainTime_def readTimestamp_authored)
  have bad: "Parse_RFC3339 plainTime ''2022-13-31T15:30:17+01:00''
     = Inl (ErrorString ''parsing time 2022-13-31T15:30:17+01:00: cannot parse as RFC3339'')"
    by (simp add: plainTime_def readTimestamp_month_13)
  let ?before = "[''Author:     Kovacs, Peter <peter.dunay.kovacs@gmail.com>'']"
  let ?after = "[''Commit:     Peter Kovacs <peter.dunay.kovacs@gmail.com>'',
                 ''CommitDate: 2022-10-31T15:30:17+0100'',
                 [CHR 0x09],
                 ''    [DEV] distributed git access'']"
  have sp: "splitOn (CHR 0x0A) testLog
              = ?before @ [''AuthorDate: 2022-10-09T13:42:12+0200''] @ ?after"
    by (simp add: testLog_def)
  have others: "\<forall>l \<in> set (?before @ ?after).
                   snd (snd (parseTimeFromLocalCommitOutput plainTime authorDateRegexp l)) = None
                 \<and> snd (snd (parseTimeFromLocalCommitOutput plainTime commitDateRegexp l)) = None"
    by (simp add: parseTimeFromLocalCommitOutput_def MatchString_def matchDate_def
        matchSpacesThenAny_def isRegexpSpace_def isDigit_def plainTime_def
        readTimestamp_committed Let_def)
  have last: "\<forall>l \<in> set ?after. \<not> MatchString authorDateRegexp l"
    by (simp add: MatchString_def matchDate_def)
  have sp2: "splitOn (CHR 0x0A)
        (''Author:     ux <ux>'' @ [CHR 0x0A] @ ''CommitDate: 2022-13-31T15:30:17+0100'')
       = [''Author:     ux <ux>''] @ [''CommitDate: 2022-13-31T15:30:17+0100''] @ []"
    by simp
  have before2: "\<forall>l \<in> set [''Author:     ux <ux>''].
                   snd (snd (parseTimeFromLocalCommitOutput plainTime authorDateRegexp l)) = None
                 \<and> snd (snd (parseTimeFromLocalCommitOutput plainTime commitDateRegexp l)) = None"
    by (simp add: parseTimeFromLocalCommitOutput_def MatchString_def matchDate_def)
  note first = date_line_reconstruction[OF a(1) ws p1 d1, of plainTime]
  note second = date_line_reconstruction[OF a(2) ws p2 d2, of plainTime]
  from first ok
  have one: "parseTimeFromLocalCommitOutput plainTime authorDateRegexp
       ''AuthorDate: 2022-10-09T13:42:12+0200''
     = (\<lparr>year = 2022, month = 10, day = 9, hour = 13, minute = 42, second = 12,
         offsetMinutes = 120\<rparr>, True, None)"
    by (simp add: dateLabel_def)
  from first[THEN conjunct2, THEN conjunct1, rule_format, of testLog ?before ?after] sp ok others last
  have two: "snd (ParseLocalCommitMetadata plainTime testLog) = None \<and>
     AuthorDate (fst (ParseLocalCommitMetadata plainTime testLog))
     = \<lparr>year = 2022, month = 10, day = 9, hour = 13, minute = 42, second = 12,
        offsetMinutes = 120\<rparr>"
    by (simp add: dateLabel_def dateField_def del: splitOn.simps)
  from second[THEN conjunct2, THEN conjunct2, THEN conjunct1, rule_format,
      of "''Author:     ux <ux>'' @ [CHR 0x0A] @ ''CommitDate: 2022-13-31T15:30:17+0100''"
         "[''Author:     ux <ux>'']" "[]"] sp2 bad before2
  have three: "snd (ParseLocalCommitMetadata plainTime
          (''Author:     ux <ux>'' @ [CHR 0x0A] @ ''CommitDate: 2022-13-31T15:30:17+0100''))
     = Some (timeParseError ''2022-13-31T15:30:17+01:00''
               (ErrorString ''parsing time 2022-13-31T15:30:17+01:00: cannot parse as RFC3339''))"
    by (simp add: dateLabel_def del: splitOn.simps)
  have mem: "''CommitDate: 2022-13-31T15:30:17+0100'' \<in> set (splitOn (CHR 0x0A)
        (''AuthorDate: never'' @ [CHR 0x0A] @ ''CommitDate: 2022-13-31T15:30:17+0100'' @
         [CHR 0x0A] @ ''    late''))"
    by simp
  from second[THEN conjunct2, THEN conjunct2, THEN conjunct2, rule_format,
      of _ "''AuthorDate: never'' @ [CHR 0x0A] @ ''CommitDate: 2022-13-31T15:30:17+0100'' @
         [CHR 0x0A] @ ''    late''"] bad mem
  have four: "snd (ParseLocalCommitMetadata plainTime
          (''AuthorDate: never'' @ [CHR 0x0A] @ ''CommitDate: 2022-13-31T15:30:17+0100'' @
           [CHR 0x0A] @ ''    late''))
     \<noteq> None"
    by (simp add: dateLabel_def del: splitOn.simps)
  from one ok two three four show ?thesis by simp
qed

end
